theory Spec2Isabelle
  imports Complex_Main "HOL-Library.Log_Nat"
begin

section \<open>Data model\<close>

text \<open>
  The analytics routes read three tables of the external store. Rows are modelled as
  records holding the columns the routes touch. Status and priority columns range over
  the values of the data model; instants (\<open>created_at\<close>, \<open>due_date\<close>, ...) are
  milliseconds since the epoch, and a nullable column is an \<open>option\<close>. Stored
  instants are taken to lie within the range of a JavaScript \<open>Date\<close>, and a table
  to hold fewer than \<open>2^53\<close> rows, so that every count is a JavaScript number without
  rounding.
\<close>

datatype task_status = Not_started | In_progress | Completed | Blocked

datatype priority = Low | Medium | High | Critical

datatype issue_status = Pending_assignment | Assigned | Issue_in_progress | Resolved | Closed

datatype role = Admin | Member

type_synonym uid = string

record task =
  status :: task_status
  priority :: priority
  assigned_to :: "uid option"
  created_by :: "uid option"
  created_at :: int
  updated_at :: "int option"
  due_date :: "int option"
  deadline :: "int option"
  completed_at :: "int option"
  late_completion :: bool

record issue =
  issue_status :: issue_status
  issue_priority :: priority
  reported_by :: "uid option"
  suggested_assignee_id :: "uid option"
  issue_assigned_to :: "uid option"
  issue_created_at :: int
  resolved_at :: "int option"

record profile =
  profile_id :: uid
  full_name :: string
  email :: string
  profile_role :: role
  job_description :: "string option"
  score :: "int option"
  weekly_hours :: "int option"
  avatar_url :: "string option"

text \<open>The caller, as the authentication layer resolves it (\<open>req.user\<close>).\<close>

record user =
  user_id :: uid
  user_role :: role

text \<open>
  The places where the routes send a query to the store. A query made once per profile
  carries the id of the profile.
\<close>

datatype query_site =
    Dashboard_total | Dashboard_completed | Dashboard_in_progress | Dashboard_pending
  | Dashboard_overdue | Dashboard_task_rows | Dashboard_issue_rows
  | Trend_rows
  | Workload_profiles | Workload_total uid | Workload_completed uid | Workload_in_progress uid
  | Resolution_rows
  | Summary_profiles | Summary_active uid | Summary_week uid | Summary_late uid
  | Summary_overdue uid
  | Recommendation_profiles | Recommendation_active uid | Recommendation_overdue uid
  | Late_rows

text \<open>
  The store at the time of a request: the rows of the three tables, and for every query
  of the request whether it fails (\<open>Some message\<close>), in which case that query answers
  with the error indicator and neither rows nor a row number. Each query fails or
  succeeds on its own.
\<close>

record store =
  tasks :: "task list"
  issues :: "issue list"
  profiles :: "profile list"
  failure :: "query_site \<Rightarrow> string option"

section \<open>The query builder\<close>

text \<open>
  A query is built by \<open>supabase.from(table).select(...)\<close> followed by filter methods
  (\<open>eq\<close>, \<open>neq\<close>, \<open>lt\<close>, \<open>gte\<close>, \<open>lte\<close>, \<open>or\<close>). Each filter method appends one
  condition to the request URL of the builder it is called on and returns that same
  builder; awaiting a builder sends the request with all the conditions the builder
  holds at that moment, and the store answers with the rows that satisfy every one of
  them. A builder is therefore the list of its conditions, a filter method extends the
  list, and a variable that holds a builder holds the extended list after any filter
  method was called on it. (In the client library a filter method is
  \<open>this.url.searchParams.append(column, ...); return this\<close>, and \<open>then\<close>, which
  \<open>await\<close> calls, fetches \<open>this.url\<close> anew each time.) The store is taken to
  return every matching row (no row cap).
\<close>

type_synonym 'r builder = "('r \<Rightarrow> bool) list"

datatype 'r query_result = Query_error string | Query_ok "'r list"

definition select_all :: "'r builder" where
  "select_all = []"

definition with_filter :: "'r builder \<Rightarrow> ('r \<Rightarrow> bool) \<Rightarrow> 'r builder" where
  "with_filter q c = q @ [c]"

definition matching :: "'r builder \<Rightarrow> 'r list \<Rightarrow> 'r list" where
  "matching q rows = filter (\<lambda>r. list_all (\<lambda>c. c r) q) rows"

definition await :: "store \<Rightarrow> query_site \<Rightarrow> 'r list \<Rightarrow> 'r builder \<Rightarrow> 'r query_result" where
  "await st site rows q =
     (case failure st site of
        Some msg \<Rightarrow> Query_error msg
      | None \<Rightarrow> Query_ok (matching q rows))"

text \<open>The fields \<open>count\<close>, \<open>data\<close> and \<open>error\<close> of an answer; \<open>None\<close> is \<open>null\<close>.\<close>

definition count_of :: "'r query_result \<Rightarrow> nat option" where
  "count_of r = (case r of Query_error _ \<Rightarrow> None | Query_ok rows \<Rightarrow> Some (length rows))"

definition data_of :: "'r query_result \<Rightarrow> 'r list option" where
  "data_of r = (case r of Query_error _ \<Rightarrow> None | Query_ok rows \<Rightarrow> Some rows)"

definition error_of :: "'r query_result \<Rightarrow> string option" where
  "error_of r = (case r of Query_error msg \<Rightarrow> Some msg | Query_ok _ \<Rightarrow> None)"

text \<open>\<open>x || 0\<close> on a number that may be \<open>null\<close>.\<close>

definition or_zero :: "nat option \<Rightarrow> nat" where
  "or_zero x = (case x of None \<Rightarrow> 0 | Some n \<Rightarrow> n)"

text \<open>\<open>rows?.filter(p).length || 0\<close> on rows that may be \<open>null\<close>.\<close>

definition filter_length :: "'r list option \<Rightarrow> ('r \<Rightarrow> bool) \<Rightarrow> nat" where
  "filter_length d p = (case d of None \<Rightarrow> 0 | Some rows \<Rightarrow> length (filter p rows))"

subsection \<open>Conditions\<close>

text \<open>A comparison with a \<open>null\<close> column is not satisfied.\<close>

definition col_eq :: "('r \<Rightarrow> 'a option) \<Rightarrow> 'a \<Rightarrow> 'r \<Rightarrow> bool" where
  "col_eq col v r = (case col r of None \<Rightarrow> False | Some x \<Rightarrow> x = v)"

definition col_lt :: "('r \<Rightarrow> int option) \<Rightarrow> int \<Rightarrow> 'r \<Rightarrow> bool" where
  "col_lt col v r = (case col r of None \<Rightarrow> False | Some x \<Rightarrow> x < v)"

definition col_gte :: "('r \<Rightarrow> int option) \<Rightarrow> int \<Rightarrow> 'r \<Rightarrow> bool" where
  "col_gte col v r = (case col r of None \<Rightarrow> False | Some x \<Rightarrow> v \<le> x)"

text \<open>The scope of a non-admin caller: the \<open>or(...)\<close> conditions of the routes.\<close>

definition task_scope :: "uid \<Rightarrow> task \<Rightarrow> bool" where
  "task_scope u t = (col_eq assigned_to u t \<or> col_eq created_by u t)"

definition issue_scope :: "uid \<Rightarrow> issue \<Rightarrow> bool" where
  "issue_scope u i =
     (col_eq reported_by u i \<or> col_eq suggested_assignee_id u i \<or> col_eq issue_assigned_to u i)"

section \<open>Responses\<close>

text \<open>
  A response is the HTTP status with its JSON body: \<open>{ data }\<close> on success,
  \<open>{ error, message }\<close> on failure.
\<close>

datatype 'a body = Data 'a | Failure string string

datatype 'a response = Response nat "'a body"

text \<open>
  A thrown value: an \<open>Error\<close> with its message, or anything else. Every route wraps
  its work in \<open>try\<close>, and the \<open>catch\<close> block is the same in all of them.
\<close>

datatype exn = Js_error string | Not_an_error

definition on_catch :: "exn \<Rightarrow> 'a response" where
  "on_catch e =
     Response 500 (Failure ''Internal server error''
       (case e of Js_error m \<Rightarrow> m | Not_an_error \<Rightarrow> ''Unknown error''))"

section \<open>Numbers\<close>

text \<open>
  A JavaScript number is a double. The result of \<open>/\<close>, \<open>*\<close>, \<open>+\<close> or \<open>-\<close> is the
  exact result rounded to the nearest double, a tie to the double with an even
  significand. A double is represented by the rational it denotes, and \<open>to_double\<close>
  rounds a rational to a double: with \<open>2 ^ e \<le> |x| < 2 ^ (e + 1)\<close> the doubles around
  \<open>x\<close> are the multiples of \<open>2 ^ (e - 52)\<close>. Overflow and subnormal numbers are
  outside the model; no quotient of counts or instants comes near them.
\<close>

definition round_half_even :: "rat \<Rightarrow> int" where
  "round_half_even x =
     (let f = \<lfloor>x\<rfloor>; r = x - of_int f
      in if r < 1 / 2 then f else if 1 / 2 < r then f + 1 else if even f then f else f + 1)"

definition exponent :: "rat \<Rightarrow> int" where
  "exponent x =
     (let (p, q) = quotient_of x; e0 = bitlen p - bitlen q
      in if 2 powi e0 \<le> x then e0 else e0 - 1)"

definition to_double :: "rat \<Rightarrow> rat" where
  "to_double x =
     (if x = 0 then 0
      else (let ulp = 2 powi (exponent \<bar>x\<bar> - 52)
            in sgn x * of_int (round_half_even (\<bar>x\<bar> / ulp)) * ulp))"

text \<open>\<open>Math.round\<close> of a double: the nearest integer, a half towards plus infinity.\<close>

definition math_round :: "rat \<Rightarrow> int" where
  "math_round x = \<lfloor>x + 1 / 2\<rfloor>"

text \<open>\<open>Math.round(a / b * 100)\<close> on two counts: the quotient is rounded to a double,
  then the product.\<close>

definition round_percent :: "nat \<Rightarrow> nat \<Rightarrow> int" where
  "round_percent a b = math_round (to_double (to_double (rat_of_nat a / rat_of_nat b) * 100))"

section \<open>GET /dashboard\<close>

text \<open>\<open>total && total > 0 ? Math.round((completed || 0) / total * 100) : 0\<close>\<close>

definition completion_rate :: "nat option \<Rightarrow> nat option \<Rightarrow> int" where
  "completion_rate totalTasks completedTasks =
     (case totalTasks of
        None \<Rightarrow> 0
      | Some n \<Rightarrow> if n > 0 then round_percent (or_zero completedTasks) n else 0)"

record priority_breakdown =
  low :: nat
  medium :: nat
  high :: nat
  critical :: nat

record status_breakdown =
  not_started :: nat
  in_progress :: nat
  completed :: nat
  blocked :: nat

record issue_status_breakdown =
  pending_assignment :: nat
  assigned :: nat
  issue_in_progress :: nat
  resolved :: nat
  closed :: nat

record task_metrics =
  tasks_total :: nat
  completed_tasks :: nat
  inProgress :: nat
  overdue :: nat
  completionRate :: int
  byPriority :: priority_breakdown
  byStatus :: status_breakdown

record issue_metrics =
  issues_total :: nat
  pending :: nat
  issues_byPriority :: priority_breakdown
  issues_byStatus :: issue_status_breakdown

record metrics =
  task_part :: task_metrics
  issue_part :: issue_metrics

text \<open>
  The payload: \<open>tasks\<close> and \<open>issues\<close> are the fields \<open>task_part\<close> and
  \<open>issue_part\<close>, \<open>tasks.total\<close> and \<open>tasks.completed\<close> the fields
  \<open>tasks_total\<close> and \<open>completed_tasks\<close>, and the fields of \<open>issues\<close> carry the
  prefix \<open>issues_\<close> where a name is taken.

  The handler keeps one builder per table (\<open>tasksQuery\<close>, \<open>issuesQuery\<close>) for the whole
  request and calls further filter methods on it before each later \<open>await\<close>; every
  such call is a rebinding of the variable below. Only \<open>count\<close> and \<open>data\<close> of the
  answers are read, never \<open>error\<close>.
\<close>

definition dashboard_metrics :: "store \<Rightarrow> user \<Rightarrow> int \<Rightarrow> metrics" where
  "dashboard_metrics st u now =
     (let userId = user_id u;
          isAdmin = (user_role u = Admin);
          tasksQuery = select_all;
          issuesQuery = select_all;
          tasksQuery = (if \<not> isAdmin then with_filter tasksQuery (task_scope userId) else tasksQuery);
          issuesQuery = (if \<not> isAdmin then with_filter issuesQuery (issue_scope userId) else issuesQuery);
          totalTasks = count_of (await st Dashboard_total (tasks st) tasksQuery);
          tasksQuery = with_filter tasksQuery (\<lambda>t. status t = Completed);
          completedTasks = count_of (await st Dashboard_completed (tasks st) tasksQuery);
          tasksQuery = with_filter tasksQuery (\<lambda>t. status t = In_progress);
          inProgressTasks = count_of (await st Dashboard_in_progress (tasks st) tasksQuery);
          issuesQuery = with_filter issuesQuery (\<lambda>i. issue_status i = Pending_assignment);
          pendingIssues = count_of (await st Dashboard_pending (issues st) issuesQuery);
          tasksQuery = with_filter tasksQuery (col_lt due_date now);
          tasksQuery = with_filter tasksQuery (\<lambda>t. status t \<noteq> Completed);
          overdueTasks = count_of (await st Dashboard_overdue (tasks st) tasksQuery);
          completionRate = completion_rate totalTasks completedTasks;
          tasksByPriority = data_of (await st Dashboard_task_rows (tasks st) tasksQuery);
          priorityBreakdown = \<lparr>
            low = filter_length tasksByPriority (\<lambda>t. priority t = Low),
            medium = filter_length tasksByPriority (\<lambda>t. priority t = Medium),
            high = filter_length tasksByPriority (\<lambda>t. priority t = High),
            critical = filter_length tasksByPriority (\<lambda>t. priority t = Critical) \<rparr>;
          statusBreakdown = \<lparr>
            not_started = filter_length tasksByPriority (\<lambda>t. status t = Not_started),
            in_progress = or_zero inProgressTasks,
            completed = or_zero completedTasks,
            blocked = filter_length tasksByPriority (\<lambda>t. status t = Blocked) \<rparr>;
          issuesByPriority = data_of (await st Dashboard_issue_rows (issues st) issuesQuery);
          issuePriorityBreakdown = \<lparr>
            low = filter_length issuesByPriority (\<lambda>i. issue_priority i = Low),
            medium = filter_length issuesByPriority (\<lambda>i. issue_priority i = Medium),
            high = filter_length issuesByPriority (\<lambda>i. issue_priority i = High),
            critical = filter_length issuesByPriority (\<lambda>i. issue_priority i = Critical) \<rparr>;
          issueStatusBreakdown = \<lparr>
            pending_assignment = or_zero pendingIssues,
            assigned = filter_length issuesByPriority (\<lambda>i. issue_status i = Assigned),
            issue_in_progress = filter_length issuesByPriority (\<lambda>i. issue_status i = Issue_in_progress),
            resolved = filter_length issuesByPriority (\<lambda>i. issue_status i = Resolved),
            closed = filter_length issuesByPriority (\<lambda>i. issue_status i = Closed) \<rparr>
      in \<lparr> task_part = \<lparr>
             tasks_total = or_zero totalTasks,
             completed_tasks = or_zero completedTasks,
             inProgress = or_zero inProgressTasks,
             overdue = or_zero overdueTasks,
             completionRate = completionRate,
             byPriority = priorityBreakdown,
             byStatus = statusBreakdown \<rparr>,
           issue_part = \<lparr>
             issues_total = (case issuesByPriority of None \<Rightarrow> 0 | Some rows \<Rightarrow> length rows),
             pending = or_zero pendingIssues,
             issues_byPriority = issuePriorityBreakdown,
             issues_byStatus = issueStatusBreakdown \<rparr> \<rparr>)"

definition dashboard :: "store \<Rightarrow> user \<Rightarrow> int \<Rightarrow> metrics response" where
  "dashboard st u now = Response 200 (Data (dashboard_metrics st u now))"

section \<open>Dates and query parameters\<close>

text \<open>
  A \<open>Date\<close> holds an instant in milliseconds, or is invalid (\<open>None\<close>) when its
  time value is \<open>NaN\<close>; a time value beyond \<open>max_time\<close> in magnitude is clipped to
  \<open>NaN\<close>. The process runs in UTC (the container sets no time zone), so local time
  is UTC.
\<close>

definition ms_per_day :: int where
  "ms_per_day = 86400000"

definition max_time :: int where
  "max_time = 8640000000000000"

definition time_clip :: "int \<Rightarrow> int option" where
  "time_clip t = (if \<bar>t\<bar> \<le> max_time then Some t else None)"

text \<open>
  \<open>d.setDate(d.getDate() + k)\<close>: the date moves by \<open>k\<close> days and keeps its time of
  day; with \<open>k\<close> \<open>NaN\<close> the date becomes invalid.
\<close>

definition add_days :: "int option \<Rightarrow> int option \<Rightarrow> int option" where
  "add_days d k =
     (case d of
        None \<Rightarrow> None
      | Some t \<Rightarrow> (case k of None \<Rightarrow> None | Some n \<Rightarrow> time_clip (t + n * ms_per_day)))"

text \<open>
  \<open>d.toISOString()\<close> throws a \<open>RangeError\<close> on an invalid date. The string it
  returns is represented by the instant it denotes, and the part before \<open>T\<close>, the
  calendar day in UTC, by the number of that day since the epoch.
\<close>

definition toISOString :: "int option \<Rightarrow> exn + int" where
  "toISOString d = (case d of None \<Rightarrow> Inl (Js_error ''Invalid time value'') | Some t \<Rightarrow> Inr t)"

definition utc_day :: "int \<Rightarrow> int" where
  "utc_day t = t div ms_per_day"

text \<open>\<open>d.getDay()\<close>: 0 is Sunday; the epoch was a Thursday.\<close>

definition getDay :: "int \<Rightarrow> int" where
  "getDay t = (utc_day t + 4) mod 7"

text \<open>
  A JavaScript string is a sequence of UTF-16 code units; \<open>ascii\<close> gives the code
  units of a string of ASCII characters.
\<close>

type_synonym js_string = "nat list"

definition ascii :: "string \<Rightarrow> js_string" where
  "ascii s = map of_char s"

text \<open>
  \<open>parseInt(s, 10)\<close>: leading white space and line terminators are skipped, then an
  optional sign, then the longest run of decimal digits is read; without a digit the
  result is \<open>NaN\<close> (\<open>None\<close>). The code units skipped are those of ECMAScript: tab,
  line feed, vertical tab, form feed, carriage return, space, no-break space (160),
  the byte order mark (65279), the line and paragraph separators (8232, 8233) and the
  other space separators of Unicode (5760, 8192 to 8202, 8239, 8287, 12288). The
  number is read exactly; a number too large to be exact as a double is far beyond the
  number of days that keeps a date valid.
\<close>

definition is_space :: "nat \<Rightarrow> bool" where
  "is_space c =
     (c = 9 \<or> c = 10 \<or> c = 11 \<or> c = 12 \<or> c = 13 \<or> c = 32 \<or> c = 160 \<or> c = 5760 \<or>
      (8192 \<le> c \<and> c \<le> 8202) \<or> c = 8232 \<or> c = 8233 \<or> c = 8239 \<or> c = 8287 \<or>
      c = 12288 \<or> c = 65279)"

definition is_digit :: "nat \<Rightarrow> bool" where
  "is_digit c = (48 \<le> c \<and> c \<le> 57)"

definition digits_value :: "js_string \<Rightarrow> int" where
  "digits_value ds = foldl (\<lambda>acc c. 10 * acc + (int c - 48)) 0 ds"

definition parseInt :: "js_string \<Rightarrow> int option" where
  "parseInt s =
     (let s1 = dropWhile is_space s;
          negative = (case s1 of [] \<Rightarrow> False | c # _ \<Rightarrow> c = 45);
          s2 = (case s1 of [] \<Rightarrow> [] | c # r \<Rightarrow> if c = 45 \<or> c = 43 then r else s1);
          z = takeWhile is_digit s2
      in if z = [] then None
         else Some (if negative then - digits_value z else digits_value z))"

text \<open>\<open>i < n\<close> on numbers: false when \<open>n\<close> is \<open>NaN\<close>.\<close>

definition js_less :: "int \<Rightarrow> int option \<Rightarrow> bool" where
  "js_less i n = (case n of None \<Rightarrow> False | Some m \<Rightarrow> i < m)"

section \<open>GET /task-completion-trend\<close>

text \<open>
  An element of the trend; its field \<open>completed\<close> is the field \<open>completed_on\<close> here,
  and its \<open>date\<close> the number of the day.
\<close>

record trend_point =
  date :: int
  created :: nat
  completed_on :: nat

text \<open>The two callbacks that select the tasks of a bucket, and the bucket of a day.\<close>

definition created_on_day :: "int \<Rightarrow> task \<Rightarrow> bool" where
  "created_on_day dateStr t = (utc_day (created_at t) = dateStr)"

definition completed_on_day :: "int \<Rightarrow> task \<Rightarrow> bool" where
  "completed_on_day dateStr t =
     (if status t \<noteq> Completed \<or> updated_at t = None then False
      else (case updated_at t of None \<Rightarrow> False | Some upd \<Rightarrow> utc_day upd = dateStr))"

definition count_bucket :: "task list option \<Rightarrow> int \<Rightarrow> trend_point" where
  "count_bucket fetched dateStr =
     \<lparr> date = dateStr,
       created = filter_length fetched (created_on_day dateStr),
       completed_on = filter_length fetched (completed_on_day dateStr) \<rparr>"

text \<open>One round of the loop: the bucket of day \<open>i\<close> after the start date.\<close>

definition trend_bucket :: "task list option \<Rightarrow> int option \<Rightarrow> int \<Rightarrow> exn + trend_point" where
  "trend_bucket fetched startDate i =
     (case toISOString (add_days startDate (Some i)) of
        Inl e \<Rightarrow> Inl e
      | Inr isoString \<Rightarrow> Inr (count_bucket fetched (utc_day isoString)))"

function trend_loop ::
  "task list option \<Rightarrow> int option \<Rightarrow> int option \<Rightarrow> int \<Rightarrow> trend_point list \<Rightarrow> exn + trend_point list"
where
  "trend_loop fetched startDate daysNum i trendData =
     (if js_less i daysNum then
        (case trend_bucket fetched startDate i of
           Inl e \<Rightarrow> Inl e
         | Inr p \<Rightarrow> trend_loop fetched startDate daysNum (i + 1) (trendData @ [p]))
      else Inr trendData)"
  by pat_completeness auto
termination
  by (relation "measure (\<lambda>(fetched, startDate, daysNum, i, trendData).
        case daysNum of None \<Rightarrow> 0 | Some n \<Rightarrow> nat (n - i))")
     (auto simp: js_less_def split: option.splits)

declare trend_loop.simps [simp del]

text \<open>
  The handler. \<open>days_param\<close> is \<open>req.query.days\<close> as \<open>parseInt\<close> reads it, that is
  as a string (\<open>None\<close> when the parameter is absent), \<open>now\<close> the clock. The query is
  built once and awaited once.
\<close>

definition task_completion_trend ::
  "store \<Rightarrow> user \<Rightarrow> js_string option \<Rightarrow> int \<Rightarrow> trend_point list response"
where
  "task_completion_trend st u days_param now =
     (let days = (case days_param of None \<Rightarrow> ascii ''30'' | Some s \<Rightarrow> s);
          daysNum = parseInt days;
          userId = user_id u;
          isAdmin = (user_role u = Admin);
          endDate = time_clip now;
          startDate = add_days (time_clip now) (map_option uminus daysNum)
      in case toISOString startDate of
           Inl e \<Rightarrow> on_catch e
         | Inr startIso \<Rightarrow>
            (case toISOString endDate of
               Inl e \<Rightarrow> on_catch e
             | Inr endIso \<Rightarrow>
                (let query = select_all;
                     query = with_filter query (\<lambda>t. startIso \<le> created_at t);
                     query = with_filter query (\<lambda>t. created_at t \<le> endIso);
                     query = (if \<not> isAdmin then with_filter query (task_scope userId) else query);
                     answer = await st Trend_rows (tasks st) query
                 in case error_of answer of
                      Some msg \<Rightarrow> Response 400 (Failure ''Database error'' msg)
                    | None \<Rightarrow>
                       (case trend_loop (data_of answer) startDate daysNum 0 [] of
                          Inl e \<Rightarrow> on_catch e
                        | Inr trendData \<Rightarrow> Response 200 (Data trendData)))))"

section \<open>GET /user-workload\<close>

text \<open>
  The route is reached by admin callers only and does not read the caller. The error
  indicator of the profile query is read; of the three count queries per profile only
  \<open>count\<close> is read. The fields of an element carry the prefix \<open>w_\<close>.
\<close>

record user_workload_row =
  w_userId :: uid
  w_userName :: string
  w_email :: string
  w_totalTasks :: nat
  w_completedTasks :: nat
  w_inProgressTasks :: nat
  w_completionRate :: int

definition user_workload_row :: "store \<Rightarrow> profile \<Rightarrow> user_workload_row" where
  "user_workload_row st u =
     (let total_n = count_of (await st (Workload_total (profile_id u)) (tasks st)
            (with_filter select_all (col_eq assigned_to (profile_id u))));
          completed_n = count_of (await st (Workload_completed (profile_id u)) (tasks st)
            (with_filter (with_filter select_all (col_eq assigned_to (profile_id u)))
               (\<lambda>t. status t = Completed)));
          in_progress_n = count_of (await st (Workload_in_progress (profile_id u)) (tasks st)
            (with_filter (with_filter select_all (col_eq assigned_to (profile_id u)))
               (\<lambda>t. status t = In_progress)))
      in \<lparr> w_userId = profile_id u,
           w_userName = full_name u,
           w_email = email u,
           w_totalTasks = or_zero total_n,
           w_completedTasks = or_zero completed_n,
           w_inProgressTasks = or_zero in_progress_n,
           w_completionRate = completion_rate total_n completed_n \<rparr>)"

definition user_workload :: "store \<Rightarrow> user_workload_row list response" where
  "user_workload st =
     (let answer = await st Workload_profiles (profiles st) select_all
      in case error_of answer of
           Some msg \<Rightarrow> Response 400 (Failure ''Database error'' msg)
         | None \<Rightarrow>
            Response 200 (Data (map (user_workload_row st)
              (case data_of answer of None \<Rightarrow> [] | Some users \<Rightarrow> users))))"

section \<open>GET /issue-resolution-metrics\<close>

text \<open>
  One query, whose error indicator is read. The fields \<open>total\<close>, \<open>resolved\<close>,
  \<open>pending\<close> and \<open>assigned\<close> of the payload carry the prefix \<open>r_\<close>. The sum of the
  resolution times is a number, rounded at every addition.
\<close>

record resolution_metrics =
  r_total :: nat
  r_resolved :: nat
  r_pending :: nat
  r_assigned :: nat
  resolutionRate :: int
  avgResolutionTimeHours :: int

definition is_resolved :: "issue \<Rightarrow> bool" where
  "is_resolved i = (issue_status i = Resolved \<or> issue_status i = Closed)"

definition resolution_time :: "issue \<Rightarrow> rat" where
  "resolution_time i =
     (case resolved_at i of
        None \<Rightarrow> 0
      | Some r \<Rightarrow> to_double (rat_of_int r - rat_of_int (issue_created_at i)))"

definition issue_resolution_metrics :: "store \<Rightarrow> user \<Rightarrow> resolution_metrics response" where
  "issue_resolution_metrics st u =
     (let userId = user_id u;
          isAdmin = (user_role u = Admin);
          query = select_all;
          query = (if \<not> isAdmin then with_filter query (issue_scope userId) else query);
          answer = await st Resolution_rows (issues st) query
      in case error_of answer of
           Some msg \<Rightarrow> Response 400 (Failure ''Database error'' msg)
         | None \<Rightarrow>
            (let fetched = data_of answer;
                 totalIssues = (case fetched of None \<Rightarrow> 0 | Some rows \<Rightarrow> length rows);
                 resolvedIssues = filter_length fetched is_resolved;
                 pendingIssues = filter_length fetched (\<lambda>i. issue_status i = Pending_assignment);
                 assignedIssues = filter_length fetched
                   (\<lambda>i. issue_status i = Assigned \<or> issue_status i = Issue_in_progress);
                 resolvedWithTimes =
                   (case fetched of
                      None \<Rightarrow> []
                    | Some rows \<Rightarrow> filter (\<lambda>i. is_resolved i \<and> resolved_at i \<noteq> None) rows);
                 avg =
                   (if length resolvedWithTimes > 0 then
                      (let totalResolutionTime =
                             foldl (\<lambda>sum i. to_double (sum + resolution_time i)) 0 resolvedWithTimes
                       in math_round (to_double
                            (to_double (totalResolutionTime / rat_of_nat (length resolvedWithTimes))
                               / 3600000)))
                    else 0)
             in Response 200 (Data \<lparr>
                  r_total = totalIssues,
                  r_resolved = resolvedIssues,
                  r_pending = pendingIssues,
                  r_assigned = assignedIssues,
                  resolutionRate =
                    (if totalIssues > 0 then round_percent resolvedIssues totalIssues else 0),
                  avgResolutionTimeHours = avg \<rparr>)))"

section \<open>GET /late-tasks\<close>

text \<open>
  One query, whose error indicator is read: the tasks past their deadline that are not
  completed, by ascending deadline, each with the id, name and e-mail address of the
  profile it is assigned to. Tasks of equal deadline are given in the order of the
  table, where the store is free. The route is reached by admin callers only.
\<close>

record late_task =
  late_row :: task
  assigned_to_profile :: "(uid \<times> string \<times> string) option"

definition embed_profile :: "store \<Rightarrow> task \<Rightarrow> late_task" where
  "embed_profile st t =
     \<lparr> late_row = t,
       assigned_to_profile =
         map_option (\<lambda>p. (profile_id p, full_name p, email p))
           (find (\<lambda>p. assigned_to t = Some (profile_id p)) (profiles st)) \<rparr>"

definition late_tasks :: "store \<Rightarrow> int \<Rightarrow> late_task list response" where
  "late_tasks st now =
     (let answer = await st Late_rows (tasks st)
            (with_filter (with_filter select_all (col_lt deadline now))
               (\<lambda>t. status t \<noteq> Completed))
      in case error_of answer of
           Some msg \<Rightarrow> Response 400 (Failure ''Database error'' msg)
         | None \<Rightarrow>
            Response 200 (Data (map (embed_profile st)
              (sort_key (\<lambda>t. case deadline t of None \<Rightarrow> 0 | Some d \<Rightarrow> d)
                 (case data_of answer of None \<Rightarrow> [] | Some rows \<Rightarrow> rows)))))"

section \<open>GET /employees-summary\<close>

text \<open>
  The route is reached by admin callers only and does not read the caller. Every
  per-profile query starts from a builder of its own. The clock is far from the ends
  of the range of \<open>Date\<close>, so \<open>weekStart\<close> is a valid date.
\<close>

record workload =
  user_row :: profile
  activeTasks :: nat
  overdueTasks :: nat

record employee_summary = workload +
  completedThisWeek :: nat
  lateTasks :: nat

definition weekStart :: "int \<Rightarrow> int" where
  "weekStart now = now - getDay now * ms_per_day"

definition employee_row :: "store \<Rightarrow> int \<Rightarrow> profile \<Rightarrow> employee_summary" where
  "employee_row st now u =
     (let active_n = count_of (await st (Summary_active (profile_id u)) (tasks st)
            (with_filter (with_filter select_all (col_eq assigned_to (profile_id u)))
               (\<lambda>t. status t \<noteq> Completed)));
          week_n = count_of (await st (Summary_week (profile_id u)) (tasks st)
            (with_filter (with_filter (with_filter select_all (col_eq assigned_to (profile_id u)))
               (\<lambda>t. status t = Completed)) (col_gte completed_at (weekStart now))));
          late_n = count_of (await st (Summary_late (profile_id u)) (tasks st)
            (with_filter (with_filter select_all (col_eq assigned_to (profile_id u)))
               (\<lambda>t. late_completion t = True)));
          overdue_n = count_of (await st (Summary_overdue (profile_id u)) (tasks st)
            (with_filter (with_filter (with_filter select_all (col_eq assigned_to (profile_id u)))
               (col_lt deadline now)) (\<lambda>t. status t \<noteq> Completed)))
      in \<lparr> user_row = u,
           activeTasks = or_zero active_n,
           overdueTasks = or_zero overdue_n,
           completedThisWeek = or_zero week_n,
           lateTasks = or_zero late_n \<rparr>)"

definition employees_summary :: "store \<Rightarrow> int \<Rightarrow> employee_summary list response" where
  "employees_summary st now =
     (let answer = await st Summary_profiles (profiles st) select_all
      in case error_of answer of
           Some msg \<Rightarrow> Response 400 (Failure ''Database error'' msg)
         | None \<Rightarrow>
            Response 200 (Data (map (employee_row st now)
              (case data_of answer of None \<Rightarrow> [] | Some users \<Rightarrow> users))))"

section \<open>GET /recommendations\<close>

text \<open>
  A recommendation. The title of each rule is a fixed Turkish string and its
  description a fixed Turkish sentence around the number of affected users: the title
  is represented by a constant per rule, the description by that number. The field
  \<open>type\<close> of the source is the field \<open>kind\<close> here.
\<close>

datatype recommendation_type = Workload | Performance | Suggestion

datatype severity = Info | Warning | Severity_critical

datatype title = Overload_title | Underload_title | Overdue_title | Low_score_title

record recommendation =
  kind :: recommendation_type
  severity :: severity
  title :: title
  description :: nat
  affectedUsers :: "string list"

text \<open>A count in a template string: its decimal digits.\<close>

fun show_nat :: "nat \<Rightarrow> string" where
  "show_nat n =
     (if n < 10 then [char_of (48 + n)]
      else show_nat (n div 10) @ [char_of (48 + n mod 10)])"

declare show_nat.simps [simp del]

text \<open>\<open>x || d\<close> on a number that may be \<open>null\<close>: \<open>null\<close> and 0 are falsy.\<close>

definition or_default :: "int option \<Rightarrow> int \<Rightarrow> int" where
  "or_default x d = (case x of None \<Rightarrow> d | Some v \<Rightarrow> if v = 0 then d else v)"

definition workload_row :: "store \<Rightarrow> int \<Rightarrow> profile \<Rightarrow> workload" where
  "workload_row st now u =
     (let active_n = count_of (await st (Recommendation_active (profile_id u)) (tasks st)
            (with_filter (with_filter select_all (col_eq assigned_to (profile_id u)))
               (\<lambda>t. status t \<noteq> Completed)));
          overdue_n = count_of (await st (Recommendation_overdue (profile_id u)) (tasks st)
            (with_filter (with_filter (with_filter select_all (col_eq assigned_to (profile_id u)))
               (col_lt deadline now)) (\<lambda>t. status t \<noteq> Completed)))
      in \<lparr> user_row = u, activeTasks = or_zero active_n, overdueTasks = or_zero overdue_n \<rparr>)"

definition overloadedUsers :: "workload list \<Rightarrow> workload list" where
  "overloadedUsers workloadData = filter (\<lambda>u. activeTasks u > 10) workloadData"

definition underutilizedUsers :: "workload list \<Rightarrow> workload list" where
  "underutilizedUsers workloadData = filter (\<lambda>u. activeTasks u < 2) workloadData"

definition usersWithOverdue :: "workload list \<Rightarrow> workload list" where
  "usersWithOverdue workloadData = filter (\<lambda>u. overdueTasks u > 0) workloadData"

definition lowScoreUsers :: "workload list \<Rightarrow> workload list" where
  "lowScoreUsers workloadData =
     filter (\<lambda>u. or_default (score (user_row u)) 100 < 70) workloadData"

text \<open>The four blocks of the handler, each pushing at most one recommendation.\<close>

definition recommend :: "workload list \<Rightarrow> recommendation list" where
  "recommend workloadData =
     (let recommendations = [];
          recommendations =
            (if length (overloadedUsers workloadData) > 0 then
               recommendations @ [\<lparr> kind = Workload, severity = Warning,
                 title = Overload_title,
                 description = length (overloadedUsers workloadData),
                 affectedUsers = map (\<lambda>u. full_name (user_row u)) (overloadedUsers workloadData) \<rparr>]
             else recommendations);
          recommendations =
            (if length (underutilizedUsers workloadData) > 0 then
               recommendations @ [\<lparr> kind = Workload, severity = Info,
                 title = Underload_title,
                 description = length (underutilizedUsers workloadData),
                 affectedUsers = map (\<lambda>u. full_name (user_row u)) (underutilizedUsers workloadData) \<rparr>]
             else recommendations);
          recommendations =
            (if length (usersWithOverdue workloadData) > 0 then
               recommendations @ [\<lparr> kind = Performance, severity = Severity_critical,
                 title = Overdue_title,
                 description = length (usersWithOverdue workloadData),
                 affectedUsers = map
                   (\<lambda>u. full_name (user_row u) @ '' ('' @ show_nat (overdueTasks u) @ '' geciken)'')
                   (usersWithOverdue workloadData) \<rparr>]
             else recommendations);
          recommendations =
            (if length (lowScoreUsers workloadData) > 0 then
               recommendations @ [\<lparr> kind = Performance, severity = Warning,
                 title = Low_score_title,
                 description = length (lowScoreUsers workloadData),
                 affectedUsers = map (\<lambda>u. full_name (user_row u)) (lowScoreUsers workloadData) \<rparr>]
             else recommendations)
      in recommendations)"

text \<open>The handler: the error indicator of the profile query is not read.\<close>

definition recommendations :: "store \<Rightarrow> int \<Rightarrow> recommendation list response" where
  "recommendations st now =
     (let users = data_of (await st Recommendation_profiles (profiles st) select_all);
          workloadData = map (workload_row st now) (case users of None \<Rightarrow> [] | Some us \<Rightarrow> us)
      in Response 200 (Data (recommend workloadData)))"

section \<open>The response cache\<close>

text \<open>
  Modelled from the spec: the cache middleware (\<open>middleware/cache.js\<close>, called as
  \<open>cacheMiddleware(ttl)\<close> on three routes) is not among the sources; the definitions
  of this section follow the cache contract of the specification. A key is made of
  the route, the effective scope of the caller (admin, or the id of the non-admin
  caller) and the query parameters; an entry is valid while
  \<open>now < created_at + ttl\<close>, and an entry that is not valid is absent.
\<close>

datatype scope = Admin_scope | User_scope uid

definition effective_scope :: "user \<Rightarrow> scope" where
  "effective_scope u = (if user_role u = Admin then Admin_scope else User_scope (user_id u))"

type_synonym cache_key = "string \<times> scope \<times> (string \<times> string) list"

definition cache_key :: "string \<Rightarrow> user \<Rightarrow> (string \<times> string) list \<Rightarrow> cache_key" where
  "cache_key route u params = (route, effective_scope u, params)"

record 'p cache_entry =
  payload :: 'p
  entry_created_at :: int
  ttl :: int

type_synonym 'p cache = "cache_key \<rightharpoonup> 'p cache_entry"

definition cache_get :: "'p cache \<Rightarrow> cache_key \<Rightarrow> int \<Rightarrow> 'p option" where
  "cache_get c k now =
     (case c k of
        None \<Rightarrow> None
      | Some e \<Rightarrow> if now < entry_created_at e + ttl e then Some (payload e) else None)"

definition cache_put :: "'p cache \<Rightarrow> cache_key \<Rightarrow> 'p \<Rightarrow> int \<Rightarrow> int \<Rightarrow> 'p cache" where
  "cache_put c k p life now = c(k \<mapsto> \<lparr> payload = p, entry_created_at = now, ttl = life \<rparr>)"

text \<open>
  A request through the cache: a hit returns the stored payload, a miss computes the
  payload, stores it and returns it.
\<close>

definition cached_request ::
  "'p cache \<Rightarrow> string \<Rightarrow> user \<Rightarrow> (string \<times> string) list \<Rightarrow> int \<Rightarrow> int \<Rightarrow> 'p \<Rightarrow> 'p \<times> 'p cache"
where
  "cached_request c route u params life now computed =
     (case cache_get c (cache_key route u params) now of
        Some p \<Rightarrow> (p, c)
      | None \<Rightarrow> (computed, cache_put c (cache_key route u params) computed life now))"

section \<open>Example data\<close>

definition admin_user :: user where
  "admin_user = \<lparr> user_id = ''admin-1'', user_role = Admin \<rparr>"

definition member_user :: user where
  "member_user = \<lparr> user_id = ''u1'', user_role = Member \<rparr>"

definition fresh_task :: task where
  "fresh_task = \<lparr> status = Not_started, priority = Medium, assigned_to = Some ''u1'',
     created_by = Some ''u2'', created_at = 0, updated_at = None, due_date = None,
     deadline = None, completed_at = None, late_completion = False \<rparr>"

definition one_task_store :: store where
  "one_task_store =
     \<lparr> tasks = [fresh_task], issues = [], profiles = [], failure = (\<lambda>site. None) \<rparr>"

text \<open>A store whose only task is completed.\<close>

definition done_store :: store where
  "done_store = one_task_store \<lparr> tasks := [fresh_task \<lparr> status := Completed \<rparr>] \<rparr>"

definition some_issue :: issue where
  "some_issue = \<lparr> issue_status = Pending_assignment, issue_priority = High,
     reported_by = Some ''u2'', suggested_assignee_id = None, issue_assigned_to = None,
     issue_created_at = 1704261600000, resolved_at = None \<rparr>"

definition shared_store :: store where
  "shared_store = \<lparr>
     tasks = [fresh_task,
              fresh_task \<lparr> status := Completed, assigned_to := Some ''u3'' \<rparr>,
              fresh_task \<lparr> status := Completed \<rparr>],
     issues = [some_issue, some_issue \<lparr> reported_by := Some ''u1'' \<rparr>],
     profiles = [], failure = (\<lambda>site. None) \<rparr>"

text \<open>The counts of a dashboard payload, in a fixed order (the completion rate is not a count).\<close>

definition counts_of_metrics :: "metrics \<Rightarrow> nat list" where
  "counts_of_metrics m =
     [tasks_total (task_part m), completed_tasks (task_part m), inProgress (task_part m),
      overdue (task_part m),
      low (byPriority (task_part m)), medium (byPriority (task_part m)),
      high (byPriority (task_part m)), critical (byPriority (task_part m)),
      not_started (byStatus (task_part m)), in_progress (byStatus (task_part m)),
      completed (byStatus (task_part m)), blocked (byStatus (task_part m)),
      issues_total (issue_part m), pending (issue_part m),
      low (issues_byPriority (issue_part m)), medium (issues_byPriority (issue_part m)),
      high (issues_byPriority (issue_part m)), critical (issues_byPriority (issue_part m)),
      pending_assignment (issues_byStatus (issue_part m)),
      assigned (issues_byStatus (issue_part m)),
      issue_in_progress (issues_byStatus (issue_part m)),
      resolved (issues_byStatus (issue_part m)),
      closed (issues_byStatus (issue_part m))]"

text \<open>
  Two tasks around the window of a trend request made on 2024-01-10 at 12:00 UTC for 7
  days: one created on 2024-01-03 at 06:00, one created on 2023-12-01 and completed
  (last updated) on 2024-01-09 at 09:00.
\<close>

definition window_store :: store where
  "window_store = \<lparr>
     tasks = [fresh_task \<lparr> created_at := 1704261600000 \<rparr>,
              fresh_task \<lparr> status := Completed, created_at := 1701423000000,
                           updated_at := Some 1704790800000 \<rparr>],
     issues = [], profiles = [], failure = (\<lambda>site. None) \<rparr>"

text \<open>
  The example of the specification: a completed task created and updated on day 0
  (2024-01-08) and a task in progress created on day 1, requested at the start of day 2.
\<close>

definition two_day_store :: store where
  "two_day_store = \<lparr>
     tasks = [fresh_task \<lparr> status := Completed, created_at := 1704708000000,
                           updated_at := Some 1704711600000 \<rparr>,
              fresh_task \<lparr> status := In_progress, created_at := 1704762000000 \<rparr>],
     issues = [], profiles = [], failure = (\<lambda>site. None) \<rparr>"

text \<open>
  The counts of a bucket as the specification words them, over all the tasks in scope:
  the tasks created on the day, and the completed tasks last updated on the day.
\<close>

definition spec_created :: "task list \<Rightarrow> int \<Rightarrow> nat" where
  "spec_created scoped d = length (filter (\<lambda>t. utc_day (created_at t) = d) scoped)"

definition spec_completed :: "task list \<Rightarrow> int \<Rightarrow> nat" where
  "spec_completed scoped d =
     length (filter (\<lambda>t. status t = Completed \<and> map_option utc_day (updated_at t) = Some d)
       scoped)"

text \<open>A store all of whose queries fail.\<close>

definition failing_store :: store where
  "failing_store = one_task_store \<lparr> failure := (\<lambda>site. Some ''connection refused'') \<rparr>"

text \<open>
  One profile and one task assigned to it, completed on Sunday 2024-01-07 at 08:00 UTC.
\<close>

definition week_profile :: profile where
  "week_profile = \<lparr> profile_id = ''u1'', full_name = ''Ada'', email = ''ada@example.org'',
     profile_role = Member, job_description = None, score = Some 90, weekly_hours = Some 40,
     avatar_url = None \<rparr>"

definition week_store :: store where
  "week_store = \<lparr>
     tasks = [fresh_task \<lparr> status := Completed, created_at := 1704261600000,
                           updated_at := Some 1704614400000,
                           completed_at := Some 1704614400000 \<rparr>],
     issues = [], profiles = [week_profile], failure = (\<lambda>site. None) \<rparr>"

text \<open>
  The store of the week with a failure of the profile queries only, and with a failure
  of every query but the profile queries.
\<close>

definition profiles_down :: store where
  "profiles_down = week_store \<lparr> failure :=
     (\<lambda>site. if site = Workload_profiles \<or> site = Summary_profiles
             then Some ''connection refused'' else None) \<rparr>"

definition counts_down :: store where
  "counts_down = week_store \<lparr> failure :=
     (\<lambda>site. if site = Workload_profiles \<or> site = Summary_profiles
             then None else Some ''statement timeout'') \<rparr>"

text \<open>
  The count the specification words for \<open>completedThisWeek\<close>: the tasks assigned to
  the profile, completed, whose \<open>completed_at\<close> is on or after the start of the current
  calendar week, the most recent Sunday at 00:00 UTC.
\<close>

definition week_start_utc :: "int \<Rightarrow> int" where
  "week_start_utc now = (utc_day now - getDay now) * ms_per_day"

definition spec_completedThisWeek :: "task list \<Rightarrow> uid \<Rightarrow> int \<Rightarrow> nat" where
  "spec_completedThisWeek rows p now =
     length (filter (\<lambda>t. col_eq assigned_to p t \<and> status t = Completed \<and>
                         col_gte completed_at (week_start_utc now) t) rows)"

text \<open>
  The rules of the recommendation engine as the specification lists them, in its order:
  the condition of each rule on one row of the workload snapshot, with the score
  defaulting to 100 when it is absent, the entry a rule produces from the rows it
  matches, and the recommendations: the entries of the rules that match some row, in
  the order of the rules.
\<close>

datatype rule = Overloaded | Underutilized | Has_overdue | Low_score

definition spec_score :: "workload \<Rightarrow> int" where
  "spec_score u = (case score (user_row u) of None \<Rightarrow> 100 | Some v \<Rightarrow> v)"

definition spec_rule_matches :: "rule \<Rightarrow> workload \<Rightarrow> bool" where
  "spec_rule_matches r u =
     (case r of
        Overloaded \<Rightarrow> activeTasks u > 10
      | Underutilized \<Rightarrow> activeTasks u < 2
      | Has_overdue \<Rightarrow> overdueTasks u > 0
      | Low_score \<Rightarrow> spec_score u < 70)"

definition rule_entry :: "rule \<Rightarrow> workload list \<Rightarrow> recommendation" where
  "rule_entry r matched =
     \<lparr> kind = (case r of Overloaded \<Rightarrow> Workload | Underutilized \<Rightarrow> Workload
                | Has_overdue \<Rightarrow> Performance | Low_score \<Rightarrow> Performance),
       severity = (case r of Overloaded \<Rightarrow> Warning | Underutilized \<Rightarrow> Info
                | Has_overdue \<Rightarrow> Severity_critical | Low_score \<Rightarrow> Warning),
       title = (case r of Overloaded \<Rightarrow> Overload_title | Underutilized \<Rightarrow> Underload_title
                | Has_overdue \<Rightarrow> Overdue_title | Low_score \<Rightarrow> Low_score_title),
       description = length matched,
       affectedUsers = map
         (\<lambda>u. case r of
                Has_overdue \<Rightarrow>
                  full_name (user_row u) @ '' ('' @ show_nat (overdueTasks u) @ '' geciken)''
              | _ \<Rightarrow> full_name (user_row u))
         matched \<rparr>"

definition spec_recommend :: "workload list \<Rightarrow> recommendation list" where
  "spec_recommend w =
     concat (map (\<lambda>r. if list_ex (spec_rule_matches r) w
                       then [rule_entry r (filter (spec_rule_matches r) w)] else [])
               [Overloaded, Underutilized, Has_overdue, Low_score])"

text \<open>
  A workload row with 15 active tasks, 3 of them overdue, and a score of 50, and a row
  with a score of 0.
\<close>

definition busy_row :: workload where
  "busy_row = \<lparr> user_row = week_profile \<lparr> score := Some 50 \<rparr>, activeTasks = 15,
     overdueTasks = 3 \<rparr>"

definition zero_score_row :: workload where
  "zero_score_row = \<lparr> user_row = week_profile \<lparr> full_name := ''Bob'', score := Some 0 \<rparr>,
     activeTasks = 5, overdueTasks = 0 \<rparr>"

text \<open>A store with one profile, of score 0, and two open tasks assigned to it.\<close>

definition zero_score_store :: store where
  "zero_score_store = \<lparr>
     tasks = [fresh_task, fresh_task \<lparr> status := In_progress \<rparr>],
     issues = [],
     profiles = [week_profile \<lparr> full_name := ''Bob'', score := Some 0 \<rparr>],
     failure = (\<lambda>site. None) \<rparr>"

section \<open>Properties of the query builder\<close>

lemma length_filter_mono:
  assumes "\<And>x. P x \<Longrightarrow> Q x"
  shows "length (filter P xs) \<le> length (filter Q xs)"
  using assms by (induction xs) auto

lemma matching_with_filter: "matching (with_filter q c) rows = filter c (matching q rows)"
  by (auto simp: matching_def with_filter_def intro: filter_cong)

lemma matching_select_all: "matching select_all rows = rows"
  by (simp add: matching_def select_all_def)

lemma matching_append: "matching (q @ cs) rows = matching cs (matching q rows)"
  by (auto simp: matching_def intro: filter_cong)

text \<open>What the handlers read of an answer, by whether the query failed.\<close>

lemma count_await:
  "or_zero (count_of (await st site rows q)) =
     (case failure st site of None \<Rightarrow> length (matching q rows) | Some msg \<Rightarrow> 0)"
  by (simp add: await_def count_of_def or_zero_def split: option.splits)

lemma filter_await:
  "filter_length (data_of (await st site rows q)) p =
     (case failure st site of None \<Rightarrow> length (filter p (matching q rows)) | Some msg \<Rightarrow> 0)"
  by (simp add: await_def data_of_def filter_length_def split: option.splits)

lemma length_await:
  "(case data_of (await st site rows q) of None \<Rightarrow> 0 | Some fetched \<Rightarrow> length fetched) =
     (case failure st site of None \<Rightarrow> length (matching q rows) | Some msg \<Rightarrow> 0)"
  by (simp add: await_def data_of_def split: option.splits)

lemma error_await: "error_of (await st site rows q) = failure st site"
  by (simp add: await_def error_of_def split: option.splits)

text \<open>
  Whatever conditions are added later, the builder of a non-admin caller selects a
  sublist of what the builder without the scope condition selects.
\<close>

lemma scope_narrows_any_query:
  "length (matching (with_filter q scope_cond @ cs) rows) \<le> length (matching (q @ cs) rows)"
proof -
  have "matching (with_filter q scope_cond @ cs) rows
          = filter (\<lambda>r. list_all (\<lambda>c. c r) (q @ cs) \<and> scope_cond r) rows"
    by (auto simp: matching_def with_filter_def intro: filter_cong)
  moreover have "matching (q @ cs) rows = filter (\<lambda>r. list_all (\<lambda>c. c r) (q @ cs)) rows"
    by (simp add: matching_def)
  ultimately show ?thesis
    by (auto intro!: length_filter_mono)
qed

section \<open>Properties of numbers\<close>

lemma round_half_even_le:
  assumes "x \<le> of_int N"
  shows "round_half_even x \<le> N"
proof -
  have "\<lfloor>x\<rfloor> \<le> N" using assms by (simp add: floor_le_iff)
  show ?thesis
  proof (cases "\<lfloor>x\<rfloor> = N")
    case True
    then have "x - of_int \<lfloor>x\<rfloor> \<le> 0" using assms by simp
    then show ?thesis using True by (simp add: round_half_even_def Let_def)
  next
    case False
    with \<open>\<lfloor>x\<rfloor> \<le> N\<close> have "\<lfloor>x\<rfloor> + 1 \<le> N" by simp
    then show ?thesis by (simp add: round_half_even_def Let_def)
  qed
qed

lemma round_half_even_ge:
  assumes "of_int N \<le> x"
  shows "N \<le> round_half_even x"
proof -
  have "N \<le> \<lfloor>x\<rfloor>" using assms by (simp add: le_floor_iff)
  then show ?thesis by (simp add: round_half_even_def Let_def)
qed

lemma round_half_even_near: "\<bar>of_int (round_half_even x) - x\<bar> \<le> 1 / 2"
proof -
  have "0 \<le> x - of_int \<lfloor>x\<rfloor>" "x - of_int \<lfloor>x\<rfloor> < 1"
    by linarith+
  then show ?thesis
    by (auto simp: round_half_even_def Let_def abs_le_iff)
qed

lemma pow2_bitlen:
  assumes "0 < p"
  shows "2 powi (bitlen p - 1) \<le> (of_int p :: rat)" and "(of_int p :: rat) < 2 powi bitlen p"
proof -
  have b: "2 ^ nat (bitlen p - 1) \<le> p" "p < 2 ^ nat (bitlen p)"
    using bitlen_bounds [OF assms] by auto
  have pos: "1 \<le> bitlen p"
    using assms by (simp add: bitlen_alt_def)
  have "(2::rat) powi (bitlen p - 1) = 2 ^ nat (bitlen p - 1)"
    using pos by (simp add: power_int_def)
  also have "\<dots> = of_int (2 ^ nat (bitlen p - 1))" by simp
  also have "\<dots> \<le> of_int p" using b(1) by (simp only: of_int_le_iff)
  finally show "2 powi (bitlen p - 1) \<le> (of_int p :: rat)" .
  have "(of_int p :: rat) < of_int (2 ^ nat (bitlen p))" using b(2) by (simp only: of_int_less_iff)
  also have "\<dots> = 2 powi bitlen p"
    using pos by (simp add: power_int_def)
  finally show "(of_int p :: rat) < 2 powi bitlen p" .
qed

text \<open>The exponent is the one of the binade of the number.\<close>

lemma exponent_bounds:
  assumes "0 < x"
  shows "2 powi exponent x \<le> x" and "x < 2 powi (exponent x + 1)"
proof -
  obtain p q where pq: "quotient_of x = (p, q)" by (cases "quotient_of x")
  then have q: "0 < q" and x: "x = of_int p / of_int q"
    using quotient_of_denom_pos quotient_of_div by blast+
  with assms have p: "0 < p"
    by (simp add: zero_less_divide_iff)
  let ?e0 = "bitlen p - bitlen q"
  have lo: "2 powi (?e0 - 1) \<le> x"
  proof -
    have "2 powi (?e0 - 1) = 2 powi (bitlen p - 1) / (2 powi bitlen q :: rat)"
      by (simp add: power_int_diff)
    also have "\<dots> \<le> of_int p / 2 powi bitlen q"
      using pow2_bitlen(1) [OF p] by (simp add: divide_right_mono)
    also have "\<dots> \<le> of_int p / of_int q"
      using pow2_bitlen(2) [OF q] p q by (intro divide_left_mono) (auto intro: mult_pos_pos)
    finally show ?thesis by (simp add: x)
  qed
  have hi: "x < 2 powi (?e0 + 1)"
  proof -
    have "x < 2 powi bitlen p / of_int q"
      unfolding x using pow2_bitlen(2) [OF p] q by (simp add: divide_strict_right_mono)
    also have "\<dots> \<le> 2 powi bitlen p / 2 powi (bitlen q - 1)"
      using pow2_bitlen(1) [OF q] q by (intro divide_left_mono) (auto intro: mult_pos_pos)
    also have "\<dots> = 2 powi (?e0 + 1)"
      by (simp add: power_int_diff power_int_add)
    finally show ?thesis .
  qed
  show "2 powi exponent x \<le> x"
    using lo by (simp add: exponent_def pq Let_def)
  show "x < 2 powi (exponent x + 1)"
  proof (cases "2 powi ?e0 \<le> x")
    case True
    then show ?thesis using hi by (simp add: exponent_def pq Let_def)
  next
    case False
    then show ?thesis by (simp add: exponent_def pq Let_def)
  qed
qed

lemma to_double_nonneg: "0 \<le> x \<Longrightarrow> 0 \<le> to_double x"
  by (auto simp: to_double_def Let_def intro!: mult_nonneg_nonneg round_half_even_ge)

text \<open>A double is within half a unit in the last place of the number it rounds.\<close>

lemma to_double_near:
  assumes "x \<noteq> 0"
  shows "\<bar>to_double x - x\<bar> \<le> 2 powi (exponent \<bar>x\<bar> - 53)"
proof -
  define u :: rat where "u = 2 powi (exponent \<bar>x\<bar> - 52)"
  have u: "0 < u" by (simp add: u_def)
  have "\<bar>of_int (round_half_even (\<bar>x\<bar> / u)) - \<bar>x\<bar> / u\<bar> * u \<le> 1 / 2 * u"
    using round_half_even_near [of "\<bar>x\<bar> / u"] u by (intro mult_right_mono) auto
  moreover have "\<bar>of_int (round_half_even (\<bar>x\<bar> / u)) - \<bar>x\<bar> / u\<bar> * u
      = \<bar>of_int (round_half_even (\<bar>x\<bar> / u)) * u - \<bar>x\<bar>\<bar>"
  proof -
    have "(of_int (round_half_even (\<bar>x\<bar> / u)) - \<bar>x\<bar> / u) * u
        = of_int (round_half_even (\<bar>x\<bar> / u)) * u - \<bar>x\<bar>"
      using u by (simp add: left_diff_distrib)
    then have "\<bar>of_int (round_half_even (\<bar>x\<bar> / u)) * u - \<bar>x\<bar>\<bar>
        = \<bar>of_int (round_half_even (\<bar>x\<bar> / u)) - \<bar>x\<bar> / u\<bar> * \<bar>u\<bar>"
      by (simp only: abs_mult [symmetric])
    then show ?thesis using u by simp
  qed
  moreover have "1 / 2 * u = 2 powi (exponent \<bar>x\<bar> - 53)"
    by (simp add: u_def power_int_diff)
  moreover have "\<bar>to_double x - x\<bar> = \<bar>of_int (round_half_even (\<bar>x\<bar> / u)) * u - \<bar>x\<bar>\<bar>"
  proof (cases "0 < x")
    case True
    then show ?thesis using assms by (simp add: to_double_def Let_def u_def)
  next
    case False
    with assms have neg: "x < 0" by simp
    then have "to_double x - x = - (of_int (round_half_even (\<bar>x\<bar> / u)) * u - \<bar>x\<bar>)"
      by (simp add: to_double_def Let_def u_def)
    then show ?thesis by (simp only: abs_minus)
  qed
  ultimately show ?thesis by simp
qed

text \<open>Rounding does not pass a bound that is itself a multiple of the unit.\<close>

lemma to_double_le:
  assumes x: "0 < x" and le: "x \<le> of_int m * 2 powi k" and k: "exponent x - 52 \<le> k"
  shows "to_double x \<le> of_int m * 2 powi k"
proof -
  define u :: rat where "u = 2 powi (exponent x - 52)"
  have u: "0 < u" by (simp add: u_def)
  define N :: int where "N = m * 2 ^ nat (k - (exponent x - 52))"
  have "2 powi k = 2 powi (k - (exponent x - 52)) * u"
    by (simp add: u_def power_int_add [symmetric])
  also have "(2::rat) powi (k - (exponent x - 52)) = 2 ^ nat (k - (exponent x - 52))"
    using k by (simp add: power_int_def)
  finally have B: "of_int m * 2 powi k = of_int N * u"
    by (simp add: N_def)
  have "x / u \<le> of_int N"
    using le u by (simp add: B pos_divide_le_eq)
  then have "round_half_even (x / u) \<le> N"
    by (rule round_half_even_le)
  then have "of_int (round_half_even (x / u)) * u \<le> of_int N * u"
    using u by (simp add: mult_right_mono)
  then show ?thesis
    using x by (simp add: to_double_def Let_def u_def [symmetric] B)
qed

lemma to_double_le_1:
  assumes "0 \<le> x" "x \<le> 1"
  shows "to_double x \<le> 1"
proof (cases "x = 0")
  case True then show ?thesis by (simp add: to_double_def)
next
  case False
  with assms have x: "0 < x" by simp
  have "(2::rat) powi exponent x \<le> 2 powi 0"
    using exponent_bounds(1) [OF x] assms by simp
  then have "exponent x \<le> 0"
    by (rule power_int_le_imp_le_exp [rotated]) simp_all
  then show ?thesis
    using to_double_le [OF x, of 1 0] assms by simp
qed

lemma to_double_le_100:
  assumes "0 \<le> x" "x \<le> 100"
  shows "to_double x \<le> 100"
proof (cases "x = 0")
  case True then show ?thesis by (simp add: to_double_def)
next
  case False
  with assms have x: "0 < x" by simp
  have "(2::rat) powi exponent x \<le> 2 powi 7"
    using exponent_bounds(1) [OF x] assms by simp
  then have "exponent x \<le> 7"
    by (rule power_int_le_imp_le_exp [rotated]) simp_all
  then show ?thesis
    using to_double_le [OF x, of 100 0] assms by simp
qed

lemma to_double_1: "to_double 1 = 1"
  by code_simp

lemma to_double_100: "to_double 100 = 100"
  by code_simp

lemma round_percent_bounds:
  assumes "c \<le> n" and "0 < n"
  shows "0 \<le> round_percent c n" and "round_percent c n \<le> 100"
proof -
  let ?q = "rat_of_nat c / rat_of_nat n"
  have q: "0 \<le> ?q" "?q \<le> 1"
    using assms by simp_all
  have d: "0 \<le> to_double ?q" "to_double ?q \<le> 1"
    using q by (simp_all add: to_double_nonneg to_double_le_1)
  then have p: "0 \<le> to_double ?q * 100" "to_double ?q * 100 \<le> 100"
    by simp_all
  then have r: "0 \<le> to_double (to_double ?q * 100)" "to_double (to_double ?q * 100) \<le> 100"
    by (simp_all add: to_double_nonneg to_double_le_100)
  from r(1) show "0 \<le> round_percent c n"
    by (simp add: round_percent_def math_round_def)
  from r(2) show "round_percent c n \<le> 100"
    by (simp add: round_percent_def math_round_def floor_le_iff)
qed

lemma math_round_0: "math_round 0 = 0"
  by (simp add: math_round_def floor_eq_iff)

lemma math_round_100: "math_round 100 = 100"
  by (simp add: math_round_def floor_eq_iff)

lemma round_percent_none: "round_percent 0 n = 0"
  by (simp add: round_percent_def to_double_def math_round_0)

lemma round_percent_all: "0 < n \<Longrightarrow> round_percent n n = 100"
  by (simp add: round_percent_def to_double_1 to_double_100 math_round_100)

text \<open>
  The double nearest to 23 / 40 is below it, and 100 times that double rounds to a
  double below 57.5; with exact arithmetic the percentage would be 57.5 and round to 58.
\<close>

lemma round_percent_23_40: "round_percent 23 40 = 57"
  by code_simp

lemma round_percent_1_8: "round_percent 1 8 = 13"
  by code_simp

section \<open>Properties of the dashboard\<close>

lemma completed_and_in_progress:
  "filter (\<lambda>t. status t = In_progress) (filter (\<lambda>t. status t = Completed) rows) = []"
  by (induction rows) auto

lemma case_failure_same: "(case x of None \<Rightarrow> c | Some msg \<Rightarrow> c) = c"
  by (simp split: option.splits)

lemma dashboard_total:
  "tasks_total (task_part (dashboard_metrics st u now)) =
     or_zero (count_of (await st Dashboard_total (tasks st)
       (if user_role u \<noteq> Admin then with_filter select_all (task_scope (user_id u))
        else select_all)))"
  by (simp add: dashboard_metrics_def Let_def)

lemma dashboard_completed:
  "completed_tasks (task_part (dashboard_metrics st u now)) =
     or_zero (count_of (await st Dashboard_completed (tasks st)
       (with_filter
          (if user_role u \<noteq> Admin then with_filter select_all (task_scope (user_id u))
           else select_all)
          (\<lambda>t. status t = Completed))))"
  by (simp add: dashboard_metrics_def Let_def)

text \<open>When the query for the total answers, the completed count is at most the total.\<close>

lemma dashboard_completed_le_total:
  assumes "failure st Dashboard_total = None"
  shows "completed_tasks (task_part (dashboard_metrics st u now))
     \<le> tasks_total (task_part (dashboard_metrics st u now))"
  using assms
  by (auto simp: dashboard_total dashboard_completed count_await matching_with_filter
        split: option.splits intro!: length_filter_mono)

lemma dashboard_rate:
  "completionRate (task_part (dashboard_metrics st u now)) =
     (if tasks_total (task_part (dashboard_metrics st u now)) = 0 then 0
      else round_percent (completed_tasks (task_part (dashboard_metrics st u now)))
             (tasks_total (task_part (dashboard_metrics st u now))))"
  by (simp add: dashboard_metrics_def Let_def await_def count_of_def or_zero_def
        completion_rate_def split: option.splits)

text \<open>
  Since the one task builder of the request has collected \<open>status = completed\<close> and
  \<open>status = in_progress\<close> by the time the in-progress count, the overdue count and
  the rows are fetched, these come back empty for every store and caller.
\<close>

lemma dashboard_later_queries_empty:
  "inProgress (task_part (dashboard_metrics st u now)) = 0 \<and>
   overdue (task_part (dashboard_metrics st u now)) = 0 \<and>
   byPriority (task_part (dashboard_metrics st u now))
     = \<lparr> low = 0, medium = 0, high = 0, critical = 0 \<rparr> \<and>
   byStatus (task_part (dashboard_metrics st u now))
     = \<lparr> not_started = 0, in_progress = 0,
         completed = completed_tasks (task_part (dashboard_metrics st u now)),
         blocked = 0 \<rparr>"
  by (simp add: dashboard_metrics_def Let_def count_await filter_await matching_with_filter
        completed_and_in_progress case_failure_same del: filter_filter cong: option.case_cong)

text \<open>
  C1. The status breakdown of the dashboard should add up to the total of the tasks in
  scope. It does not: for an admin caller and a store whose only task is not started,
  the total is 1 while the four status buckets are all 0.
\<close>

theorem dashboard_status_sum_failing_input:
  "tasks_total (task_part (dashboard_metrics one_task_store admin_user 0)) = 1 \<and>
   not_started (byStatus (task_part (dashboard_metrics one_task_store admin_user 0)))
     + in_progress (byStatus (task_part (dashboard_metrics one_task_store admin_user 0)))
     + completed (byStatus (task_part (dashboard_metrics one_task_store admin_user 0)))
     + blocked (byStatus (task_part (dashboard_metrics one_task_store admin_user 0))) = 0"
  by (simp add: dashboard_metrics_def Let_def await_def count_of_def data_of_def or_zero_def
        filter_length_def matching_def with_filter_def select_all_def one_task_store_def
        admin_user_def fresh_task_def)

subsection \<open>The completion rate\<close>

text \<open>
  C2, as amended. The completion rate of the dashboard is 0 when the total is 0, and
  otherwise \<open>Math.round(completed / total * 100)\<close> as JavaScript computes it: the
  quotient rounded to a double, the product rounded to a double, and that double rounded
  to the nearest integer, a half up. It lies between 0 and 100. It is 0 whenever the
  total is 0, and also whenever nothing is completed; it is 100 when all the tasks of a
  positive total are completed.
\<close>

theorem dashboard_completionRate:
  "(let m = task_part (dashboard_metrics st u now) in
      completionRate m =
        (if tasks_total m = 0 then 0
         else math_round (to_double (to_double
                (rat_of_nat (completed_tasks m) / rat_of_nat (tasks_total m)) * 100))) \<and>
      0 \<le> completionRate m \<and> completionRate m \<le> 100 \<and>
      (tasks_total m = 0 \<or> completed_tasks m = 0 \<longrightarrow> completionRate m = 0) \<and>
      (0 < tasks_total m \<and> completed_tasks m = tasks_total m \<longrightarrow> completionRate m = 100))"
proof -
  define m where "m = task_part (dashboard_metrics st u now)"
  have rate: "completionRate m =
      (if tasks_total m = 0 then 0 else round_percent (completed_tasks m) (tasks_total m))"
    unfolding m_def by (rule dashboard_rate)
  have le: "completed_tasks m \<le> tasks_total m" if "0 < tasks_total m"
  proof -
    have "failure st Dashboard_total = None"
      using that by (simp add: m_def dashboard_total count_await split: option.splits)
    then show ?thesis
      unfolding m_def by (rule dashboard_completed_le_total)
  qed
  have bounds: "0 \<le> completionRate m \<and> completionRate m \<le> 100"
  proof (cases "tasks_total m = 0")
    case True
    then show ?thesis by (simp add: rate)
  next
    case False
    then have pos: "0 < tasks_total m" by simp
    show ?thesis
      using round_percent_bounds [OF le [OF pos] pos] by (simp add: rate False)
  qed
  have zero: "tasks_total m = 0 \<or> completed_tasks m = 0 \<longrightarrow> completionRate m = 0"
    by (auto simp: rate round_percent_none)
  have full: "0 < tasks_total m \<and> completed_tasks m = tasks_total m \<longrightarrow> completionRate m = 100"
    by (auto simp: rate round_percent_all)
  from rate bounds zero full show ?thesis
    by (simp add: m_def [symmetric] Let_def round_percent_def)
qed

theorem dashboard_completionRate_witness:
  "tasks_total (task_part (dashboard_metrics one_task_store admin_user 0)) = 1 \<and>
   completed_tasks (task_part (dashboard_metrics one_task_store admin_user 0)) = 0 \<and>
   completionRate (task_part (dashboard_metrics one_task_store admin_user 0)) = 0 \<and>
   0 < tasks_total (task_part (dashboard_metrics done_store admin_user 0)) \<and>
   completed_tasks (task_part (dashboard_metrics done_store admin_user 0))
     = tasks_total (task_part (dashboard_metrics done_store admin_user 0)) \<and>
   completionRate (task_part (dashboard_metrics done_store admin_user 0)) = 100"
proof -
  have one: "tasks_total (task_part (dashboard_metrics one_task_store admin_user 0)) = 1"
    "completed_tasks (task_part (dashboard_metrics one_task_store admin_user 0)) = 0"
    by (simp_all add: dashboard_total dashboard_completed count_await matching_def
          with_filter_def select_all_def one_task_store_def admin_user_def fresh_task_def)
  have all: "tasks_total (task_part (dashboard_metrics done_store admin_user 0)) = 1"
    "completed_tasks (task_part (dashboard_metrics done_store admin_user 0)) = 1"
    by (simp_all add: dashboard_total dashboard_completed count_await matching_def
          with_filter_def select_all_def done_store_def one_task_store_def admin_user_def
          fresh_task_def)
  show ?thesis
    using one all
      dashboard_completionRate [of one_task_store admin_user 0]
      dashboard_completionRate [of done_store admin_user 0]
    by (simp add: Let_def)
qed

text \<open>
  The completion rate is 0 although the total is not: one task in scope, none completed.
\<close>

theorem dashboard_completionRate_zero_counterexample:
  "completionRate (task_part (dashboard_metrics one_task_store admin_user 0)) = 0 \<and>
   tasks_total (task_part (dashboard_metrics one_task_store admin_user 0)) = 1"
proof -
  have "tasks_total (task_part (dashboard_metrics one_task_store admin_user 0)) = 1"
    "completed_tasks (task_part (dashboard_metrics one_task_store admin_user 0)) = 0"
    by (simp_all add: dashboard_total dashboard_completed count_await matching_def
          with_filter_def select_all_def one_task_store_def admin_user_def fresh_task_def)
  then show ?thesis
    by (simp add: dashboard_rate round_percent_none)
qed

subsection \<open>Scope\<close>

text \<open>
  C7. Every count of the dashboard computed for any caller is at most the same count
  computed for an admin caller on the same store.
\<close>

theorem dashboard_scope_narrows:
  assumes "user_role a = Admin"
  shows "list_all2 (\<le>) (counts_of_metrics (dashboard_metrics st u now))
           (counts_of_metrics (dashboard_metrics st a now))"
  using assms
  by (auto simp: counts_of_metrics_def dashboard_metrics_def Let_def count_await filter_await
        length_await matching_with_filter matching_select_all
        split: option.splits intro!: length_filter_mono)

theorem dashboard_scope_narrows_witness:
  "user_role admin_user = Admin \<and>
   list_all2 (\<le>) (counts_of_metrics (dashboard_metrics shared_store member_user 0))
     (counts_of_metrics (dashboard_metrics shared_store admin_user 0)) \<and>
   tasks_total (task_part (dashboard_metrics shared_store member_user 0)) = 2 \<and>
   tasks_total (task_part (dashboard_metrics shared_store admin_user 0)) = 3"
proof -
  have adm: "user_role admin_user = Admin"
    by (simp add: admin_user_def)
  have "tasks_total (task_part (dashboard_metrics shared_store member_user 0)) = 2"
    by (simp add: dashboard_total await_def count_of_def or_zero_def matching_def
          with_filter_def select_all_def shared_store_def member_user_def fresh_task_def
          task_scope_def col_eq_def)
  moreover have "tasks_total (task_part (dashboard_metrics shared_store admin_user 0)) = 3"
    by (simp add: dashboard_total await_def count_of_def or_zero_def matching_def
          select_all_def shared_store_def admin_user_def)
  ultimately show ?thesis
    using adm dashboard_scope_narrows [OF adm, of shared_store member_user 0] by simp
qed

section \<open>Properties of the completion trend\<close>

lemma utc_day_add_days: "utc_day (s + j * ms_per_day) = utc_day s + j"
  by (simp add: utc_day_def ms_per_day_def)

lemma trend_bucket_valid:
  assumes "\<bar>s + i * ms_per_day\<bar> \<le> max_time"
  shows "trend_bucket fetched (Some s) i = Inr (count_bucket fetched (utc_day s + i))"
  using assms
  by (simp add: trend_bucket_def add_days_def time_clip_def toISOString_def utc_day_add_days)

text \<open>
  The loop from round \<open>i\<close> on, when every date it makes is valid: it does not throw and
  appends one bucket per remaining day.
\<close>

lemma trend_loop_runs:
  assumes "\<And>j. i \<le> j \<Longrightarrow> j < n \<Longrightarrow> \<bar>s + j * ms_per_day\<bar> \<le> max_time"
  shows "trend_loop fetched (Some s) (Some n) i acc =
           Inr (acc @ map (\<lambda>k. count_bucket fetched (utc_day s + (i + int k)))
                        [0..<nat (n - i)])"
  using assms
proof (induction "nat (n - i)" arbitrary: i acc)
  case 0
  then have "\<not> i < n" by simp
  then show ?case
    by (subst trend_loop.simps) (simp add: js_less_def)
next
  case (Suc k)
  then have lt: "i < n" and k: "k = nat (n - (i + 1))" by linarith+
  have valid: "\<bar>s + i * ms_per_day\<bar> \<le> max_time"
    using Suc.prems lt by simp
  have rest: "\<And>j. i + 1 \<le> j \<Longrightarrow> j < n \<Longrightarrow> \<bar>s + j * ms_per_day\<bar> \<le> max_time"
    using Suc.prems by simp
  have split: "[0..<nat (n - i)] = 0 # map Suc [0..<nat (n - (i + 1))]"
    using Suc.hyps(2) k by (simp add: upt_conv_Cons map_Suc_upt del: upt_Suc)
  have step: "trend_loop fetched (Some s) (Some n) i acc =
      trend_loop fetched (Some s) (Some n) (i + 1) (acc @ [count_bucket fetched (utc_day s + i)])"
    by (subst trend_loop.simps) (simp add: js_less_def lt trend_bucket_valid [OF valid])
  have ih: "trend_loop fetched (Some s) (Some n) (i + 1)
        (acc @ [count_bucket fetched (utc_day s + i)]) =
      Inr ((acc @ [count_bucket fetched (utc_day s + i)]) @
           map (\<lambda>k. count_bucket fetched (utc_day s + (i + 1 + int k)))
             [0..<nat (n - (i + 1))])"
    using rest by (intro Suc.hyps(1) [OF k]) auto
  show ?case
    unfolding step ih split
    by (simp add: o_def add.assoc del: upt_Suc)
qed

lemma completed_on_day_iff:
  "completed_on_day d t = (status t = Completed \<and> map_option utc_day (updated_at t) = Some d)"
  by (auto simp: completed_on_day_def split: option.splits)

text \<open>The rows the one query of the route fetches.\<close>

lemma trend_fetch:
  "failure st Trend_rows = None \<Longrightarrow>
   data_of (await st Trend_rows (tasks st)
     (let query = select_all;
          query = with_filter query (\<lambda>t. lo \<le> created_at t);
          query = with_filter query (\<lambda>t. created_at t \<le> hi)
      in if user_role u \<noteq> Admin then with_filter query (task_scope (user_id u)) else query))
   = Some (filter (\<lambda>t. lo \<le> created_at t \<and> created_at t \<le> hi \<and>
                        (user_role u = Admin \<or> task_scope (user_id u) t)) (tasks st))"
  by (auto simp: await_def data_of_def Let_def matching_with_filter matching_select_all
        intro: filter_cong)

text \<open>
  The response of the route for a \<open>days\<close> parameter that parses to a number \<open>n\<close> whose
  start date is valid: the error of the store, or one bucket for each of the \<open>n\<close> days
  from the day of the start date on (none when \<open>n\<close> is not positive).
\<close>

lemma task_completion_trend_ok:
  assumes days: "parseInt (case days_param of None \<Rightarrow> ascii ''30'' | Some s \<Rightarrow> s) = Some n"
    and now: "\<bar>now\<bar> \<le> max_time"
    and start: "\<bar>now - n * ms_per_day\<bar> \<le> max_time"
  shows "task_completion_trend st u days_param now =
     (case failure st Trend_rows of
        Some msg \<Rightarrow> Response 400 (Failure ''Database error'' msg)
      | None \<Rightarrow> Response 200 (Data (map
          (\<lambda>k. count_bucket
                 (Some (filter (\<lambda>t. now - n * ms_per_day \<le> created_at t \<and> created_at t \<le> now \<and>
                        (user_role u = Admin \<or> task_scope (user_id u) t)) (tasks st)))
                 (utc_day now - n + int k))
          [0..<nat n])))"
proof -
  have valid: "\<And>j. 0 \<le> j \<Longrightarrow> j < n \<Longrightarrow> \<bar>(now - n * ms_per_day) + j * ms_per_day\<bar> \<le> max_time"
  proof -
    fix j :: int assume j: "0 \<le> j" "j < n"
    have "0 \<le> j * ms_per_day" using j by (simp add: ms_per_day_def)
    moreover have "j * ms_per_day \<le> n * ms_per_day" using j by (simp add: ms_per_day_def)
    ultimately show "\<bar>(now - n * ms_per_day) + j * ms_per_day\<bar> \<le> max_time"
      using now start by linarith
  qed
  have day: "utc_day (now - n * ms_per_day) = utc_day now - n"
    using utc_day_add_days [of now "- n"] by simp
  have unfolded: "task_completion_trend st u days_param now =
      (let answer = await st Trend_rows (tasks st)
             (let query = select_all;
                  query = with_filter query (\<lambda>t. now - n * ms_per_day \<le> created_at t);
                  query = with_filter query (\<lambda>t. created_at t \<le> now)
              in if user_role u \<noteq> Admin then with_filter query (task_scope (user_id u))
                 else query)
       in case error_of answer of
            Some msg \<Rightarrow> Response 400 (Failure ''Database error'' msg)
          | None \<Rightarrow>
             (case trend_loop (data_of answer) (Some (now - n * ms_per_day)) (Some n) 0 [] of
                Inl e \<Rightarrow> on_catch e
              | Inr trendData \<Rightarrow> Response 200 (Data trendData)))"
  proof -
    have clip: "time_clip now = Some now"
      using now by (simp add: time_clip_def)
    have sd: "add_days (Some now) (map_option uminus (Some n)) = Some (now - n * ms_per_day)"
      using start by (simp add: add_days_def time_clip_def)
    have iso: "\<And>t. toISOString (Some t) = Inr t"
      by (simp add: toISOString_def)
    show ?thesis
      unfolding task_completion_trend_def Let_def days clip sd iso sum.case ..
  qed
  show ?thesis
  proof (cases "failure st Trend_rows")
    case None
    then have err: "\<And>q. error_of (await st Trend_rows (tasks st) q) = None"
      by (simp add: await_def error_of_def)
    show ?thesis
      unfolding unfolded Let_def err trend_fetch [OF None, unfolded Let_def]
      by (simp add: None trend_loop_runs [OF valid] day add.assoc)
  next
    case (Some msg)
    then show ?thesis
      unfolding unfolded by (simp add: await_def error_of_def)
  qed
qed

text \<open>A \<open>days\<close> parameter without a leading number makes the start date invalid, and
  the handler answers from its \<open>catch\<close> block.\<close>

lemma task_completion_trend_invalid_start:
  assumes "add_days (time_clip now)
             (map_option uminus
               (parseInt (case days_param of None \<Rightarrow> ascii ''30'' | Some s \<Rightarrow> s))) = None"
  shows "task_completion_trend st u days_param now =
           Response 500 (Failure ''Internal server error'' ''Invalid time value'')"
  unfolding task_completion_trend_def Let_def assms
  by (simp add: toISOString_def on_catch_def)

lemma task_completion_trend_nan:
  assumes "parseInt (case days_param of None \<Rightarrow> ascii ''30'' | Some s \<Rightarrow> s) = None"
  shows "task_completion_trend st u days_param now =
           Response 500 (Failure ''Internal server error'' ''Invalid time value'')"
  by (rule task_completion_trend_invalid_start)
     (simp add: assms add_days_def split: option.splits)

lemma task_completion_trend_out_of_range:
  assumes "parseInt (case days_param of None \<Rightarrow> ascii ''30'' | Some s \<Rightarrow> s) = Some n"
    and "max_time < \<bar>now - n * ms_per_day\<bar>"
  shows "task_completion_trend st u days_param now =
           Response 500 (Failure ''Internal server error'' ''Invalid time value'')"
  by (rule task_completion_trend_invalid_start)
     (use assms in \<open>simp add: add_days_def time_clip_def split: option.splits\<close>)

text \<open>White space beyond ASCII is skipped as well.\<close>

lemma parseInt_no_break_space: "parseInt (160 # ascii ''2'') = Some 2"
  by (simp add: ascii_def parseInt_def is_space_def is_digit_def digits_value_def Let_def)

lemma parseInt_byte_order_mark: "parseInt (65279 # ascii ''-12px'') = Some (- 12)"
  by (simp add: ascii_def parseInt_def is_space_def is_digit_def digits_value_def Let_def)

lemma upt_7: "[0..<7] = [0, 1, 2, 3, 4, 5, 6]"
  by (simp add: upt_rec)

lemma upt_2: "[0..<2] = [0, 1]"
  by (simp add: upt_rec)

text \<open>
  C3, as amended. For a \<open>days\<close> parameter that parses to a positive number \<open>n\<close> (with
  now and the start date within the range of \<open>Date\<close>, and a store that answers), the
  trend is a sequence of exactly \<open>n\<close> buckets; bucket \<open>k\<close> is dated \<open>k\<close> days after the
  UTC day of \<open>now - n days\<close>, so the dates are contiguous and ascending and end the day
  before today. Each bucket counts among the tasks in scope that were created within
  \<open>[now - n days, now]\<close>, to the millisecond: \<open>created\<close> those created on the day of
  the bucket, \<open>completed\<close> those with status completed and last updated on that day.
\<close>

theorem trend_buckets:
  assumes "parseInt (case days_param of None \<Rightarrow> ascii ''30'' | Some s \<Rightarrow> s) = Some n"
    and "0 < n"
    and "failure st Trend_rows = None"
    and "\<bar>now\<bar> \<le> max_time"
    and "\<bar>now - n * ms_per_day\<bar> \<le> max_time"
  shows "task_completion_trend st u days_param now =
     Response 200 (Data (map
       (\<lambda>k. \<lparr> date = utc_day now - n + int k,
               created = length (filter
                 (\<lambda>t. (now - n * ms_per_day \<le> created_at t \<and> created_at t \<le> now \<and>
                       (user_role u = Admin \<or> task_scope (user_id u) t)) \<and>
                      utc_day (created_at t) = utc_day now - n + int k) (tasks st)),
               completed_on = length (filter
                 (\<lambda>t. (now - n * ms_per_day \<le> created_at t \<and> created_at t \<le> now \<and>
                       (user_role u = Admin \<or> task_scope (user_id u) t)) \<and>
                      status t = Completed \<and>
                      map_option utc_day (updated_at t) = Some (utc_day now - n + int k))
                 (tasks st)) \<rparr>)
       [0..<nat n]))"
  unfolding task_completion_trend_ok [OF assms(1,4,5)] assms(3)
  by (simp add: count_bucket_def filter_length_def created_on_day_def completed_on_day_iff)

theorem trend_buckets_witness:
  "parseInt (case Some (ascii ''2'') of None \<Rightarrow> ascii ''30'' | Some s \<Rightarrow> s) = Some 2 \<and> (0::int) < 2 \<and>
   failure two_day_store Trend_rows = None \<and> \<bar>1704844800000\<bar> \<le> max_time \<and>
   \<bar>1704844800000 - 2 * ms_per_day\<bar> \<le> max_time \<and>
   task_completion_trend two_day_store admin_user (Some (ascii ''2'')) 1704844800000 =
     Response 200 (Data [\<lparr> date = 19730, created = 1, completed_on = 1 \<rparr>,
                         \<lparr> date = 19731, created = 1, completed_on = 0 \<rparr>])"
proof -
  have days: "parseInt (case Some (ascii ''2'') of None \<Rightarrow> ascii ''30'' | Some s \<Rightarrow> s) = Some 2"
    by (simp add: ascii_def parseInt_def is_space_def is_digit_def digits_value_def Let_def)
  have store: "failure two_day_store Trend_rows = None"
    by (simp add: two_day_store_def)
  have now: "\<bar>1704844800000\<bar> \<le> max_time"
    by (simp add: max_time_def)
  have start: "\<bar>1704844800000 - 2 * ms_per_day\<bar> \<le> max_time"
    by (simp add: max_time_def ms_per_day_def)
  have "task_completion_trend two_day_store admin_user (Some (ascii ''2'')) 1704844800000 =
     Response 200 (Data [\<lparr> date = 19730, created = 1, completed_on = 1 \<rparr>,
                         \<lparr> date = 19731, created = 1, completed_on = 0 \<rparr>])"
    by (subst trend_buckets [OF days _ store now start])
       (simp_all add: upt_2 two_day_store_def admin_user_def fresh_task_def utc_day_def
          ms_per_day_def)
  with days store now start show ?thesis by simp
qed

text \<open>
  On 2024-01-10 at 12:00 with \<open>days = 7\<close> and an admin caller, the bucket of 2024-01-03
  reports no created task although a task in scope was created on that day (at 06:00,
  before the start of the window), and the bucket of 2024-01-09 reports no completed
  task although a completed task in scope was last updated on that day (it was created
  before the window).
\<close>

theorem trend_buckets_counterexample:
  "task_completion_trend window_store admin_user (Some (ascii ''7'')) 1704888000000 =
     Response 200 (Data
       [\<lparr> date = 19725, created = 0, completed_on = 0 \<rparr>,
        \<lparr> date = 19726, created = 0, completed_on = 0 \<rparr>,
        \<lparr> date = 19727, created = 0, completed_on = 0 \<rparr>,
        \<lparr> date = 19728, created = 0, completed_on = 0 \<rparr>,
        \<lparr> date = 19729, created = 0, completed_on = 0 \<rparr>,
        \<lparr> date = 19730, created = 0, completed_on = 0 \<rparr>,
        \<lparr> date = 19731, created = 0, completed_on = 0 \<rparr>]) \<and>
   spec_created (tasks window_store) 19725 = 1 \<and>
   spec_completed (tasks window_store) 19731 = 1"
proof -
  have days: "parseInt (case Some (ascii ''7'') of None \<Rightarrow> ascii ''30'' | Some s \<Rightarrow> s) = Some 7"
    by (simp add: ascii_def parseInt_def is_space_def is_digit_def digits_value_def Let_def)
  have "task_completion_trend window_store admin_user (Some (ascii ''7'')) 1704888000000 =
     Response 200 (Data
       [\<lparr> date = 19725, created = 0, completed_on = 0 \<rparr>,
        \<lparr> date = 19726, created = 0, completed_on = 0 \<rparr>,
        \<lparr> date = 19727, created = 0, completed_on = 0 \<rparr>,
        \<lparr> date = 19728, created = 0, completed_on = 0 \<rparr>,
        \<lparr> date = 19729, created = 0, completed_on = 0 \<rparr>,
        \<lparr> date = 19730, created = 0, completed_on = 0 \<rparr>,
        \<lparr> date = 19731, created = 0, completed_on = 0 \<rparr>])"
    by (subst task_completion_trend_ok [OF days])
       (simp_all add: max_time_def ms_per_day_def window_store_def admin_user_def
          fresh_task_def upt_7 count_bucket_def filter_length_def utc_day_def
          created_on_day_def completed_on_day_def)
  moreover have "spec_created (tasks window_store) 19725 = 1"
    by (simp add: spec_created_def window_store_def fresh_task_def utc_day_def ms_per_day_def)
  moreover have "spec_completed (tasks window_store) 19731 = 1"
    by (simp add: spec_completed_def window_store_def fresh_task_def utc_day_def
          ms_per_day_def)
  ultimately show ?thesis by simp
qed

subsection \<open>A \<open>days\<close> parameter that is not a positive number\<close>

text \<open>
  C4, as amended. The route neither rejects nor clamps a \<open>days\<close> parameter on purpose.
  When the parameter does not start with a number (\<open>parseInt\<close> gives \<open>NaN\<close>), the
  start date is invalid and the request ends in the \<open>catch\<close> block with status 500. When
  it parses to a number that is 0 or negative (with now and the start date within the
  range of \<open>Date\<close>), the loop does not run: the response is the error of the store, if
  it fails, and otherwise status 200 with an empty sequence of buckets.
\<close>

theorem trend_days_not_positive:
  "(parseInt (case days_param of None \<Rightarrow> ascii ''30'' | Some s \<Rightarrow> s) = None \<longrightarrow>
      task_completion_trend st u days_param now =
        Response 500 (Failure ''Internal server error'' ''Invalid time value'')) \<and>
   (parseInt (case days_param of None \<Rightarrow> ascii ''30'' | Some s \<Rightarrow> s) = Some n \<and> n \<le> 0 \<and>
    \<bar>now\<bar> \<le> max_time \<and> \<bar>now - n * ms_per_day\<bar> \<le> max_time \<longrightarrow>
      task_completion_trend st u days_param now =
        (case failure st Trend_rows of
           Some msg \<Rightarrow> Response 400 (Failure ''Database error'' msg)
         | None \<Rightarrow> Response 200 (Data [])))"
proof (intro conjI impI)
  assume "parseInt (case days_param of None \<Rightarrow> ascii ''30'' | Some s \<Rightarrow> s) = None"
  then show "task_completion_trend st u days_param now =
      Response 500 (Failure ''Internal server error'' ''Invalid time value'')"
    by (rule task_completion_trend_nan)
next
  assume a: "parseInt (case days_param of None \<Rightarrow> ascii ''30'' | Some s \<Rightarrow> s) = Some n \<and> n \<le> 0 \<and>
    \<bar>now\<bar> \<le> max_time \<and> \<bar>now - n * ms_per_day\<bar> \<le> max_time"
  then have "nat n = 0" by simp
  with a show "task_completion_trend st u days_param now =
      (case failure st Trend_rows of
         Some msg \<Rightarrow> Response 400 (Failure ''Database error'' msg)
       | None \<Rightarrow> Response 200 (Data []))"
    by (simp add: task_completion_trend_ok [of days_param n now] split: option.splits)
qed

theorem trend_days_not_positive_witness:
  "parseInt (case Some (ascii ''abc'') of None \<Rightarrow> ascii ''30'' | Some s \<Rightarrow> s) = None \<and>
   task_completion_trend one_task_store member_user (Some (ascii ''abc'')) 1704888000000 =
     Response 500 (Failure ''Internal server error'' ''Invalid time value'') \<and>
   parseInt (case Some (ascii ''-3'') of None \<Rightarrow> ascii ''30'' | Some s \<Rightarrow> s) = Some (- 3) \<and>
   (- 3 :: int) \<le> 0 \<and> \<bar>1704888000000\<bar> \<le> max_time \<and>
   \<bar>1704888000000 - (- 3) * ms_per_day\<bar> \<le> max_time \<and>
   task_completion_trend one_task_store member_user (Some (ascii ''-3'')) 1704888000000 =
     Response 200 (Data [])"
proof -
  have nan: "parseInt (case Some (ascii ''abc'') of None \<Rightarrow> ascii ''30'' | Some s \<Rightarrow> s) = None"
    by (simp add: ascii_def parseInt_def is_space_def is_digit_def Let_def)
  have neg: "parseInt (case Some (ascii ''-3'') of None \<Rightarrow> ascii ''30'' | Some s \<Rightarrow> s) = Some (- 3)"
    by (simp add: ascii_def parseInt_def is_space_def is_digit_def digits_value_def Let_def)
  have range: "\<bar>1704888000000\<bar> \<le> max_time" "\<bar>1704888000000 - (- 3) * ms_per_day\<bar> \<le> max_time"
    by (simp_all add: max_time_def ms_per_day_def)
  have ok: "failure one_task_store Trend_rows = None"
    by (simp add: one_task_store_def)
  show ?thesis
    using nan neg range
      trend_days_not_positive [where days_param = "Some (ascii ''abc'')" and st = one_task_store
        and u = member_user and now = 1704888000000 and n = 0]
      trend_days_not_positive [where days_param = "Some (ascii ''-3'')" and st = one_task_store
        and u = member_user and now = 1704888000000 and n = "- 3"]
    by (simp add: ok)
qed

text \<open>\<open>days = 0\<close> is answered with status 200 and a sequence of no buckets.\<close>

theorem trend_days_zero_counterexample:
  "task_completion_trend one_task_store admin_user (Some (ascii ''0'')) 1704888000000 =
     Response 200 (Data [])"
proof -
  have days: "parseInt (case Some (ascii ''0'') of None \<Rightarrow> ascii ''30'' | Some s \<Rightarrow> s) = Some 0"
    by (simp add: ascii_def parseInt_def is_space_def is_digit_def digits_value_def Let_def)
  show ?thesis
    by (subst task_completion_trend_ok [OF days])
       (simp_all add: max_time_def ms_per_day_def one_task_store_def)
qed

section \<open>Properties of the employee summary\<close>

lemma employees_summary_failure:
  "failure st Summary_profiles = Some msg \<Longrightarrow>
     employees_summary st now = Response 400 (Failure ''Database error'' msg)"
  by (simp add: employees_summary_def error_await)

text \<open>
  What the route counts as completed this week: the completed tasks of the profile
  whose \<open>completed_at\<close> is not before \<open>weekStart\<close>, which is now moved back to the
  most recent Sunday with its time of day kept.
\<close>

lemma employee_row_completedThisWeek:
  "failure st (Summary_week (profile_id u)) = None \<Longrightarrow>
   completedThisWeek (employee_row st now u) =
     length (filter (\<lambda>t. col_eq assigned_to (profile_id u) t \<and> status t = Completed \<and>
                         col_gte completed_at (now - getDay now * ms_per_day) t) (tasks st))"
  by (auto simp: employee_row_def Let_def count_await weekStart_def
        matching_with_filter matching_select_all intro!: arg_cong [where f = length] filter_cong)

text \<open>
  C8. \<open>completedThisWeek\<close> should count the completed tasks of the profile from the
  start of the calendar week on. On Wednesday 2024-01-10 at 12:00 UTC a task completed
  on Sunday 2024-01-07 at 08:00 is in the current week, yet the route reports 0: its
  \<open>weekStart\<close> is Sunday at 12:00.
\<close>

theorem employees_summary_week_failing_input:
  "employees_summary week_store 1704888000000 =
     Response 200 (Data [\<lparr> user_row = week_profile, activeTasks = 0, overdueTasks = 0,
                           completedThisWeek = 0, lateTasks = 0 \<rparr>]) \<and>
   weekStart 1704888000000 = 1704628800000 \<and>
   week_start_utc 1704888000000 = 1704585600000 \<and>
   spec_completedThisWeek (tasks week_store) (profile_id week_profile) 1704888000000 = 1"
proof -
  have "employees_summary week_store 1704888000000 =
     Response 200 (Data [\<lparr> user_row = week_profile, activeTasks = 0, overdueTasks = 0,
                           completedThisWeek = 0, lateTasks = 0 \<rparr>])"
    by (simp add: employees_summary_def employee_row_def Let_def await_def error_of_def
          data_of_def count_of_def or_zero_def matching_def with_filter_def select_all_def
          week_store_def week_profile_def fresh_task_def col_eq_def col_lt_def col_gte_def
          weekStart_def getDay_def utc_day_def ms_per_day_def)
  moreover have "weekStart 1704888000000 = 1704628800000"
    by (simp add: weekStart_def getDay_def utc_day_def ms_per_day_def)
  moreover have "week_start_utc 1704888000000 = 1704585600000"
    by (simp add: week_start_utc_def getDay_def utc_day_def ms_per_day_def)
  moreover have
    "spec_completedThisWeek (tasks week_store) (profile_id week_profile) 1704888000000 = 1"
    by (simp add: spec_completedThisWeek_def week_start_utc_def getDay_def utc_day_def
          ms_per_day_def week_store_def week_profile_def fresh_task_def col_eq_def col_gte_def)
  ultimately show ?thesis by simp
qed

section \<open>Error responses\<close>

lemma user_workload_failure:
  "failure st Workload_profiles = Some msg \<Longrightarrow>
     user_workload st = Response 400 (Failure ''Database error'' msg)"
  by (simp add: user_workload_def error_await)

lemma issue_resolution_metrics_failure:
  "failure st Resolution_rows = Some msg \<Longrightarrow>
     issue_resolution_metrics st u = Response 400 (Failure ''Database error'' msg)"
  by (simp add: issue_resolution_metrics_def Let_def error_await)

lemma late_tasks_failure:
  "failure st Late_rows = Some msg \<Longrightarrow>
     late_tasks st now = Response 400 (Failure ''Database error'' msg)"
  by (simp add: late_tasks_def error_await)

text \<open>
  C6, as amended. On the five routes that read the error indicator of a query, a failure
  of that query is answered with status 400, the error \<open>Database error\<close> and the message
  of the store, whatever the other queries of the request do: the one query of the
  completion trend (for a \<open>days\<close> parameter that parses, with valid dates), the profile
  query of the user workload and of the employee summary, the one query of the issue
  resolution metrics and the one of the late tasks. An exception in a handler is
  answered from its \<open>catch\<close> block with status 500, the error \<open>Internal server error\<close>
  and, as the message, the message of the exception: on the completion trend a start
  date that is invalid, because \<open>days\<close> is not a number or leads out of the range of
  \<open>Date\<close>, is answered with the message \<open>Invalid time value\<close> of the \<open>RangeError\<close>.
\<close>

theorem error_responses:
  "(failure st Trend_rows = Some msg \<and>
    parseInt (case days_param of None \<Rightarrow> ascii ''30'' | Some s \<Rightarrow> s) = Some n \<and>
    \<bar>now\<bar> \<le> max_time \<and> \<bar>now - n * ms_per_day\<bar> \<le> max_time \<longrightarrow>
      task_completion_trend st u days_param now = Response 400 (Failure ''Database error'' msg)) \<and>
   (failure st Workload_profiles = Some msg \<longrightarrow>
      user_workload st = Response 400 (Failure ''Database error'' msg)) \<and>
   (failure st Resolution_rows = Some msg \<longrightarrow>
      issue_resolution_metrics st u = Response 400 (Failure ''Database error'' msg)) \<and>
   (failure st Summary_profiles = Some msg \<longrightarrow>
      employees_summary st now = Response 400 (Failure ''Database error'' msg)) \<and>
   (failure st Late_rows = Some msg \<longrightarrow>
      late_tasks st now = Response 400 (Failure ''Database error'' msg)) \<and>
   (parseInt (case days_param of None \<Rightarrow> ascii ''30'' | Some s \<Rightarrow> s) = None \<longrightarrow>
      task_completion_trend st u days_param now =
        Response 500 (Failure ''Internal server error'' ''Invalid time value'')) \<and>
   (parseInt (case days_param of None \<Rightarrow> ascii ''30'' | Some s \<Rightarrow> s) = Some n \<and>
    max_time < \<bar>now - n * ms_per_day\<bar> \<longrightarrow>
      task_completion_trend st u days_param now =
        Response 500 (Failure ''Internal server error'' ''Invalid time value''))"
proof (intro conjI impI)
  assume a: "failure st Trend_rows = Some msg \<and>
    parseInt (case days_param of None \<Rightarrow> ascii ''30'' | Some s \<Rightarrow> s) = Some n \<and>
    \<bar>now\<bar> \<le> max_time \<and> \<bar>now - n * ms_per_day\<bar> \<le> max_time"
  then show "task_completion_trend st u days_param now =
      Response 400 (Failure ''Database error'' msg)"
    by (simp add: task_completion_trend_ok [of days_param n now])
next
  assume "failure st Workload_profiles = Some msg"
  then show "user_workload st = Response 400 (Failure ''Database error'' msg)"
    by (rule user_workload_failure)
next
  assume "failure st Resolution_rows = Some msg"
  then show "issue_resolution_metrics st u = Response 400 (Failure ''Database error'' msg)"
    by (rule issue_resolution_metrics_failure)
next
  assume "failure st Summary_profiles = Some msg"
  then show "employees_summary st now = Response 400 (Failure ''Database error'' msg)"
    by (rule employees_summary_failure)
next
  assume "failure st Late_rows = Some msg"
  then show "late_tasks st now = Response 400 (Failure ''Database error'' msg)"
    by (rule late_tasks_failure)
next
  assume "parseInt (case days_param of None \<Rightarrow> ascii ''30'' | Some s \<Rightarrow> s) = None"
  then show "task_completion_trend st u days_param now =
      Response 500 (Failure ''Internal server error'' ''Invalid time value'')"
    by (rule task_completion_trend_nan)
next
  assume "parseInt (case days_param of None \<Rightarrow> ascii ''30'' | Some s \<Rightarrow> s) = Some n \<and>
    max_time < \<bar>now - n * ms_per_day\<bar>"
  then show "task_completion_trend st u days_param now =
      Response 500 (Failure ''Internal server error'' ''Invalid time value'')"
    by (simp add: task_completion_trend_out_of_range)
qed

theorem error_responses_witness:
  "failure profiles_down Trend_rows = None \<and>
   failure profiles_down Workload_profiles = Some ''connection refused'' \<and>
   failure profiles_down Summary_profiles = Some ''connection refused'' \<and>
   user_workload profiles_down = Response 400 (Failure ''Database error'' ''connection refused'') \<and>
   employees_summary profiles_down 1704888000000 =
     Response 400 (Failure ''Database error'' ''connection refused'') \<and>
   failure failing_store Trend_rows = Some ''connection refused'' \<and>
   parseInt (case None of None \<Rightarrow> ascii ''30'' | Some s \<Rightarrow> s) = Some 30 \<and>
   \<bar>1704888000000\<bar> \<le> max_time \<and> \<bar>1704888000000 - 30 * ms_per_day\<bar> \<le> max_time \<and>
   task_completion_trend failing_store member_user None 1704888000000 =
     Response 400 (Failure ''Database error'' ''connection refused'') \<and>
   issue_resolution_metrics failing_store member_user =
     Response 400 (Failure ''Database error'' ''connection refused'') \<and>
   late_tasks failing_store 1704888000000 =
     Response 400 (Failure ''Database error'' ''connection refused'') \<and>
   parseInt (case Some (ascii ''soon'') of None \<Rightarrow> ascii ''30'' | Some s \<Rightarrow> s) = None \<and>
   task_completion_trend failing_store member_user (Some (ascii ''soon'')) 1704888000000 =
     Response 500 (Failure ''Internal server error'' ''Invalid time value'') \<and>
   parseInt (case Some (ascii ''999999999999'') of None \<Rightarrow> ascii ''30'' | Some s \<Rightarrow> s)
     = Some 999999999999 \<and>
   max_time < \<bar>1704888000000 - 999999999999 * ms_per_day\<bar> \<and>
   task_completion_trend one_task_store member_user (Some (ascii ''999999999999''))
       1704888000000 =
     Response 500 (Failure ''Internal server error'' ''Invalid time value'')"
proof -
  have down: "failure profiles_down Trend_rows = None"
    "failure profiles_down Workload_profiles = Some ''connection refused''"
    "failure profiles_down Summary_profiles = Some ''connection refused''"
    by (simp_all add: profiles_down_def)
  have fail: "\<And>site. failure failing_store site = Some ''connection refused''"
    by (simp add: failing_store_def)
  have d30: "parseInt (case None of None \<Rightarrow> ascii ''30'' | Some s \<Rightarrow> s) = Some 30"
    by (simp add: ascii_def parseInt_def is_space_def is_digit_def digits_value_def Let_def)
  have nan: "parseInt (case Some (ascii ''soon'') of None \<Rightarrow> ascii ''30'' | Some s \<Rightarrow> s) = None"
    by (simp add: ascii_def parseInt_def is_space_def is_digit_def Let_def)
  have big: "parseInt (case Some (ascii ''999999999999'') of None \<Rightarrow> ascii ''30'' | Some s \<Rightarrow> s)
     = Some 999999999999"
    by (simp add: ascii_def parseInt_def is_space_def is_digit_def digits_value_def Let_def)
  have range: "\<bar>1704888000000\<bar> \<le> max_time" "\<bar>1704888000000 - 30 * ms_per_day\<bar> \<le> max_time"
    "max_time < \<bar>1704888000000 - 999999999999 * ms_per_day\<bar>"
    by (simp_all add: max_time_def ms_per_day_def)
  show ?thesis
    using down fail d30 nan big range
      error_responses [where st = profiles_down and msg = "''connection refused''"
        and days_param = None and n = 30 and now = 1704888000000 and u = member_user]
      error_responses [where st = failing_store and msg = "''connection refused''"
        and days_param = None and n = 30 and now = 1704888000000 and u = member_user]
      error_responses [where st = failing_store and msg = "''connection refused''"
        and days_param = "Some (ascii ''soon'')" and n = 0 and now = 1704888000000
        and u = member_user]
      error_responses [where st = one_task_store and msg = "''connection refused''"
        and days_param = "Some (ascii ''999999999999'')" and n = 999999999999
        and now = 1704888000000 and u = member_user]
    by simp
qed

text \<open>
  The response to \<open>days = abc\<close> carries the message of the exception that was caught;
  the dashboard answers a store all of whose queries fail with status 200 and counts of
  0; and the employee summary answers failing count queries with status 200 and counts
  of 0.
\<close>

theorem error_responses_counterexample:
  "task_completion_trend one_task_store admin_user (Some (ascii ''abc'')) 1704888000000 =
     Response 500 (Failure ''Internal server error'' ''Invalid time value'') \<and>
   dashboard failing_store admin_user 1704888000000 =
     Response 200 (Data \<lparr>
       task_part = \<lparr> tasks_total = 0, completed_tasks = 0, inProgress = 0, overdue = 0,
         completionRate = 0,
         byPriority = \<lparr> low = 0, medium = 0, high = 0, critical = 0 \<rparr>,
         byStatus = \<lparr> not_started = 0, in_progress = 0, completed = 0, blocked = 0 \<rparr> \<rparr>,
       issue_part = \<lparr> issues_total = 0, pending = 0,
         issues_byPriority = \<lparr> low = 0, medium = 0, high = 0, critical = 0 \<rparr>,
         issues_byStatus = \<lparr> pending_assignment = 0, assigned = 0, issue_in_progress = 0,
           resolved = 0, closed = 0 \<rparr> \<rparr> \<rparr>) \<and>
   employees_summary counts_down 1704888000000 =
     Response 200 (Data [\<lparr> user_row = week_profile, activeTasks = 0, overdueTasks = 0,
                           completedThisWeek = 0, lateTasks = 0 \<rparr>])"
proof -
  have nan: "parseInt (case Some (ascii ''abc'') of None \<Rightarrow> ascii ''30'' | Some s \<Rightarrow> s) = None"
    by (simp add: ascii_def parseInt_def is_space_def is_digit_def Let_def)
  have "task_completion_trend one_task_store admin_user (Some (ascii ''abc'')) 1704888000000 =
     Response 500 (Failure ''Internal server error'' ''Invalid time value'')"
    using nan by (rule task_completion_trend_nan)
  moreover have "\<And>site. failure failing_store site = Some ''connection refused''"
    by (simp add: failing_store_def)
  then have "dashboard_metrics failing_store admin_user 1704888000000 =
     \<lparr> task_part = \<lparr> tasks_total = 0, completed_tasks = 0, inProgress = 0, overdue = 0,
         completionRate = 0,
         byPriority = \<lparr> low = 0, medium = 0, high = 0, critical = 0 \<rparr>,
         byStatus = \<lparr> not_started = 0, in_progress = 0, completed = 0, blocked = 0 \<rparr> \<rparr>,
       issue_part = \<lparr> issues_total = 0, pending = 0,
         issues_byPriority = \<lparr> low = 0, medium = 0, high = 0, critical = 0 \<rparr>,
         issues_byStatus = \<lparr> pending_assignment = 0, assigned = 0, issue_in_progress = 0,
           resolved = 0, closed = 0 \<rparr> \<rparr> \<rparr>"
    by (simp add: dashboard_metrics_def Let_def await_def count_of_def data_of_def or_zero_def
          filter_length_def completion_rate_def)
  moreover have "employees_summary counts_down 1704888000000 =
     Response 200 (Data [\<lparr> user_row = week_profile, activeTasks = 0, overdueTasks = 0,
                           completedThisWeek = 0, lateTasks = 0 \<rparr>])"
    by (simp add: employees_summary_def employee_row_def Let_def await_def error_of_def
          data_of_def count_of_def or_zero_def matching_def select_all_def
          counts_down_def week_store_def)
  ultimately show ?thesis
    by (simp add: dashboard_def)
qed

section \<open>The other routes on example data\<close>

text \<open>One issue resolved five hours after it was reported, one pending.\<close>

lemma issue_resolution_metrics_example:
  "issue_resolution_metrics
     (one_task_store \<lparr> issues :=
        [some_issue \<lparr> issue_status := Resolved, resolved_at := Some 1704279600000 \<rparr>,
         some_issue] \<rparr>) admin_user =
   Response 200 (Data \<lparr> r_total = 2, r_resolved = 1, r_pending = 1, r_assigned = 0,
     resolutionRate = 50, avgResolutionTimeHours = 5 \<rparr>)"
  by code_simp

lemma user_workload_example:
  "user_workload week_store =
   Response 200 (Data [\<lparr> w_userId = ''u1'', w_userName = ''Ada'', w_email = ''ada@example.org'',
     w_totalTasks = 1, w_completedTasks = 1, w_inProgressTasks = 0, w_completionRate = 100 \<rparr>])"
  by code_simp

text \<open>Two tasks past their deadline come back by deadline, with the profile of the
  assignee where there is one.\<close>

lemma late_tasks_example:
  "late_tasks
     (week_store \<lparr> tasks :=
        [fresh_task \<lparr> deadline := Some 1704700000000 \<rparr>,
         fresh_task \<lparr> deadline := Some 1704600000000, assigned_to := Some ''u9'' \<rparr>,
         fresh_task \<lparr> deadline := Some 1704500000000, status := Completed \<rparr>] \<rparr>)
     1704888000000 =
   Response 200 (Data
     [\<lparr> late_row = fresh_task \<lparr> deadline := Some 1704600000000, assigned_to := Some ''u9'' \<rparr>,
        assigned_to_profile = None \<rparr>,
      \<lparr> late_row = fresh_task \<lparr> deadline := Some 1704700000000 \<rparr>,
        assigned_to_profile = Some (''u1'', ''Ada'', ''ada@example.org'') \<rparr>])"
  by code_simp

section \<open>Properties of the recommendations\<close>

lemma recommend_blocks:
  "recommend w =
     (if overloadedUsers w = [] then [] else [rule_entry Overloaded (overloadedUsers w)]) @
     (if underutilizedUsers w = [] then [] else [rule_entry Underutilized (underutilizedUsers w)]) @
     (if usersWithOverdue w = [] then [] else [rule_entry Has_overdue (usersWithOverdue w)]) @
     (if lowScoreUsers w = [] then [] else [rule_entry Low_score (lowScoreUsers w)])"
  by (simp add: recommend_def Let_def rule_entry_def)

lemma list_ex_filter: "list_ex P xs = (filter P xs \<noteq> [])"
  by (induction xs) auto

lemma recommendations_recommend:
  "recommendations st now =
     Response 200 (Data (recommend (map (workload_row st now)
       (case failure st Recommendation_profiles of None \<Rightarrow> profiles st | Some msg \<Rightarrow> []))))"
  by (simp add: recommendations_def Let_def await_def data_of_def matching_select_all
        split: option.splits)

lemma show_nat_3: "show_nat 3 = ''3''"
  by code_simp

text \<open>
  On a snapshot without a stored score of 0 the route gives the recommendations of the
  specification: the entries of the four rules in their order, each rule contributing
  exactly when some row matches it, with all the rows that match it.
\<close>

lemma recommend_without_zero_scores:
  assumes "list_all (\<lambda>u. score (user_row u) \<noteq> Some 0) w"
  shows "recommend w = spec_recommend w"
proof -
  have low: "lowScoreUsers w = filter (spec_rule_matches Low_score) w"
    unfolding lowScoreUsers_def
    using assms
    by (intro filter_cong refl)
       (auto simp: spec_rule_matches_def spec_score_def or_default_def list_all_iff
          split: option.splits)
  have others: "overloadedUsers w = filter (spec_rule_matches Overloaded) w"
    "underutilizedUsers w = filter (spec_rule_matches Underutilized) w"
    "usersWithOverdue w = filter (spec_rule_matches Has_overdue) w"
    by (simp_all add: spec_rule_matches_def [abs_def] overloadedUsers_def
          underutilizedUsers_def usersWithOverdue_def)
  show ?thesis
    by (simp add: recommend_blocks spec_recommend_def list_ex_filter low others)
qed

lemma recommend_busy_row:
  "recommend [busy_row] =
     [\<lparr> kind = Workload, severity = Warning, title = Overload_title, description = 1,
        affectedUsers = [''Ada''] \<rparr>,
      \<lparr> kind = Performance, severity = Severity_critical, title = Overdue_title,
        description = 1, affectedUsers = [''Ada (3 geciken)''] \<rparr>,
      \<lparr> kind = Performance, severity = Warning, title = Low_score_title, description = 1,
        affectedUsers = [''Ada''] \<rparr>]"
  by (simp add: recommend_blocks rule_entry_def overloadedUsers_def underutilizedUsers_def
        usersWithOverdue_def lowScoreUsers_def busy_row_def week_profile_def or_default_def
        show_nat_3)

text \<open>
  C5. The rules should be evaluated with the score defaulting to 100 when it is absent,
  so that a stored score of 0 is below 70 and matches the low-score rule. For a profile
  with a score of 0 and two active tasks, none overdue, the route answers with no
  recommendation, where the rules of the specification give the low-score entry with
  the profile.
\<close>

theorem recommendations_zero_score_failing_input:
  "recommendations zero_score_store 1704888000000 = Response 200 (Data []) \<and>
   spec_recommend (map (workload_row zero_score_store 1704888000000)
                     (profiles zero_score_store)) =
     [\<lparr> kind = Performance, severity = Warning, title = Low_score_title, description = 1,
        affectedUsers = [''Bob''] \<rparr>]"
proof -
  have row: "map (workload_row zero_score_store 1704888000000) (profiles zero_score_store) =
      [\<lparr> user_row = week_profile \<lparr> full_name := ''Bob'', score := Some 0 \<rparr>,
         activeTasks = 2, overdueTasks = 0 \<rparr>]"
    by (simp add: workload_row_def Let_def await_def count_of_def or_zero_def matching_def
          with_filter_def select_all_def zero_score_store_def week_profile_def
          fresh_task_def col_eq_def col_lt_def)
  have "recommendations zero_score_store 1704888000000 = Response 200 (Data [])"
    unfolding recommendations_recommend
    by (simp add: row [unfolded zero_score_store_def, simplified] zero_score_store_def
          recommend_blocks overloadedUsers_def underutilizedUsers_def usersWithOverdue_def
          lowScoreUsers_def or_default_def)
  moreover have "spec_recommend (map (workload_row zero_score_store 1704888000000)
                     (profiles zero_score_store)) =
     [\<lparr> kind = Performance, severity = Warning, title = Low_score_title, description = 1,
        affectedUsers = [''Bob''] \<rparr>]"
    unfolding row
    by (simp add: spec_recommend_def spec_rule_matches_def spec_score_def rule_entry_def)
  ultimately show ?thesis by simp
qed

lemma lowScoreUsers_skip:
  assumes "score (user_row u) = Some 0"
  shows "lowScoreUsers (before @ u # after) = lowScoreUsers (before @ after)"
  using assms by (simp add: lowScoreUsers_def or_default_def)

text \<open>
  C10. A profile whose stored score is 0 is given the default score 100 by the low-score
  rule: it is never among the low-score users, and the low-score recommendation is the
  same with the profile in the snapshot as without it.
\<close>

theorem zero_score_not_low:
  assumes "score (user_row u) = Some 0"
  shows "or_default (score (user_row u)) 100 = 100 \<and>
         u \<notin> set (lowScoreUsers w) \<and>
         filter (\<lambda>e. title e = Low_score_title) (recommend (before @ u # after))
           = filter (\<lambda>e. title e = Low_score_title) (recommend (before @ after))"
proof -
  have default: "or_default (score (user_row u)) 100 = 100"
    using assms by (simp add: or_default_def)
  then have "u \<notin> set (lowScoreUsers w)"
    by (simp add: lowScoreUsers_def)
  moreover have "filter (\<lambda>e. title e = Low_score_title) (recommend (before @ u # after))
           = filter (\<lambda>e. title e = Low_score_title) (recommend (before @ after))"
    by (simp add: recommend_blocks rule_entry_def lowScoreUsers_skip [OF assms])
  ultimately show ?thesis
    using default by simp
qed

theorem zero_score_not_low_witness:
  "score (user_row zero_score_row) = Some 0 \<and>
   or_default (score (user_row zero_score_row)) 100 = 100 \<and>
   zero_score_row \<notin> set (lowScoreUsers [busy_row, zero_score_row]) \<and>
   filter (\<lambda>e. title e = Low_score_title) (recommend [busy_row, zero_score_row])
     = [\<lparr> kind = Performance, severity = Warning, title = Low_score_title, description = 1,
          affectedUsers = [''Ada''] \<rparr>]"
proof -
  have zero: "score (user_row zero_score_row) = Some 0"
    by (simp add: zero_score_row_def)
  have "filter (\<lambda>e. title e = Low_score_title) (recommend [busy_row])
     = [\<lparr> kind = Performance, severity = Warning, title = Low_score_title, description = 1,
          affectedUsers = [''Ada''] \<rparr>]"
    by (simp add: recommend_blocks rule_entry_def overloadedUsers_def underutilizedUsers_def
          usersWithOverdue_def lowScoreUsers_def busy_row_def week_profile_def or_default_def
          show_nat_3)
  then show ?thesis
    using zero zero_score_not_low [OF zero, of "[busy_row, zero_score_row]" "[busy_row]" "[]"]
    by simp
qed

section \<open>Properties of the response cache\<close>

lemma effective_scope_eq:
  "(effective_scope a = effective_scope b) =
     (user_role a = Admin \<and> user_role b = Admin \<or>
      user_role a \<noteq> Admin \<and> user_role b \<noteq> Admin \<and> user_id a = user_id b)"
  by (simp add: effective_scope_def)

lemma cache_get_other_key:
  "k' \<noteq> k \<Longrightarrow> cache_get (cache_put c k p life now) k' later = cache_get c k' later"
  by (simp add: cache_get_def cache_put_def)

text \<open>
  C9. For two callers of different effective scope (an admin and a non-admin, or two
  non-admin callers with different ids) on the same route with the same parameters, the
  cache keys differ, a request of one leaves every lookup of the other as it was, and
  the response the other then receives is the one it would have received without that
  request.
\<close>

theorem cache_scope_isolation:
  assumes "user_role a = Admin \<and> user_role b \<noteq> Admin \<or>
           user_role a \<noteq> Admin \<and> user_role b = Admin \<or>
           user_role a \<noteq> Admin \<and> user_role b \<noteq> Admin \<and> user_id a \<noteq> user_id b"
  shows "cache_key route a params \<noteq> cache_key route b params \<and>
         cache_get (snd (cached_request c route a params life now computed_a))
             (cache_key route b params) later
           = cache_get c (cache_key route b params) later \<and>
         fst (cached_request (snd (cached_request c route a params life now computed_a))
                route b params life later computed_b)
           = fst (cached_request c route b params life later computed_b)"
proof -
  have scopes: "effective_scope a \<noteq> effective_scope b"
    using assms by (auto simp: effective_scope_eq)
  then have keys: "cache_key route b params \<noteq> cache_key route a params"
    by (simp add: cache_key_def)
  have lookup: "cache_get (snd (cached_request c route a params life now computed_a))
             (cache_key route b params) later
           = cache_get c (cache_key route b params) later"
    by (simp add: cached_request_def cache_get_other_key [OF keys] split: option.splits)
  have "fst (cached_request (snd (cached_request c route a params life now computed_a))
                route b params life later computed_b)
           = fst (cached_request c route b params life later computed_b)"
    by (simp add: cached_request_def [of _ route b] lookup split: option.splits)
  with keys lookup show ?thesis
    by auto
qed

theorem cache_scope_isolation_witness:
  "(user_role admin_user = Admin \<and> user_role member_user \<noteq> Admin \<or>
    user_role admin_user \<noteq> Admin \<and> user_role member_user = Admin \<or>
    user_role admin_user \<noteq> Admin \<and> user_role member_user \<noteq> Admin \<and>
      user_id admin_user \<noteq> user_id member_user) \<and>
   cache_key ''/dashboard'' admin_user [] \<noteq> cache_key ''/dashboard'' member_user [] \<and>
   fst (cached_request
          (snd (cached_request Map.empty ''/dashboard'' admin_user [] 300000 0 (3::nat)))
          ''/dashboard'' member_user [] 300000 1000 (1::nat)) = 1"
proof -
  have scopes: "user_role admin_user = Admin \<and> user_role member_user \<noteq> Admin \<or>
    user_role admin_user \<noteq> Admin \<and> user_role member_user = Admin \<or>
    user_role admin_user \<noteq> Admin \<and> user_role member_user \<noteq> Admin \<and>
      user_id admin_user \<noteq> user_id member_user"
    by (simp add: admin_user_def member_user_def)
  have "fst (cached_request Map.empty ''/dashboard'' member_user [] 300000 1000 (1::nat)) = 1"
    by (simp add: cached_request_def cache_get_def)
  then show ?thesis
    using scopes
      cache_scope_isolation [OF scopes, where route = "''/dashboard''" and params = "[]"
        and c = Map.empty and life = 300000 and now = 0 and computed_a = "3::nat"
        and later = 1000 and computed_b = "1::nat"]
    by simp
qed

end
